theory Spec2Isabelle
  imports Complex_Main "HOL-Library.Sublist"
begin

section \<open>Values and strings of the backend\<close>

text \<open>
  The backend is JavaScript: what the cache holds and what the mocked providers return
  are JSON values. Numbers are read as rationals (a JSON number literal is one); the
  model does no arithmetic on them. \<open>JFunction\<close> is a function of the runtime: no JSON
  text carries one, but a property lookup on an object literal can return one.
\<close>

datatype json =
    JNull
  | JBool bool
  | JNum rat
  | JStr string
  | JArr "json list"
  | JObj "(string \<times> json) list"
  | JFunction

text \<open>JavaScript truthiness, the test of \<^verbatim>\<open>if (cached)\<close> and \<^verbatim>\<open>!coords\<close>.\<close>

fun truthy :: "json \<Rightarrow> bool" where
  "truthy JNull = False"
| "truthy (JBool b) = b"
| "truthy (JNum n) = (n \<noteq> 0)"
| "truthy (JStr s) = (s \<noteq> [])"
| "truthy (JArr xs) = True"
| "truthy (JObj kvs) = True"
| "truthy JFunction = True"

text \<open>
  Property access \<^verbatim>\<open>v.name\<close> on a truthy value, for the names the routes read
  (\<^verbatim>\<open>lat\<close>, \<^verbatim>\<open>lon\<close>, \<^verbatim>\<open>status\<close>, \<^verbatim>\<open>message\<close>): an object yields its field,
  every other value has no such property. \<open>None\<close> is \<^verbatim>\<open>undefined\<close>. The keys of
  an object are taken to be distinct, as they are in a JSONB value.
\<close>

fun get_prop :: "json \<Rightarrow> string \<Rightarrow> json option" where
  "get_prop (JObj kvs) name = map_of kvs name"
| "get_prop v name = None"

text \<open>
  Strings are lists of 8-bit code units. \<^verbatim>\<open>\s\<close> of a JavaScript regular expression
  matches, among these, tab, line feed, vertical tab, form feed, carriage return, space
  and the no-break space.
\<close>

definition is_whitespace :: "char \<Rightarrow> bool" where
  "is_whitespace c \<longleftrightarrow> (of_char c :: nat) \<in> {9, 10, 11, 12, 13, 32, 160}"

text \<open>\<^verbatim>\<open>s.replace(/\s/g, '_')\<close>: every whitespace character becomes one underscore.\<close>

definition replace_whitespace :: "string \<Rightarrow> string" where
  "replace_whitespace s = map (\<lambda>c. if is_whitespace c then CHR ''_'' else c) s"

text \<open>\<^verbatim>\<open>s.includes(t)\<close>: \<open>t\<close> occurs in \<open>s\<close> as a contiguous run.\<close>

definition includes_str :: "string \<Rightarrow> string \<Rightarrow> bool" where
  "includes_str s t = sublist t s"

section \<open>The cache keys of the provider operations\<close>

definition location_cache_key :: "string \<Rightarrow> string" where
  "location_cache_key description = ''gemini_location_'' @ replace_whitespace description"

definition image_cache_key :: "string \<Rightarrow> string" where
  "image_cache_key imageUrl = ''gemini_image_verify_'' @ imageUrl"

definition geocode_cache_key :: "string \<Rightarrow> string" where
  "geocode_cache_key locationName = ''geocode_'' @ replace_whitespace locationName"

definition social_media_cache_key :: "string \<Rightarrow> string \<Rightarrow> string" where
  "social_media_cache_key disasterId query =
     ''social_media_'' @ disasterId @ ''_'' @ replace_whitespace query"

definition official_updates_cache_key :: "string \<Rightarrow> string" where
  "official_updates_cache_key source = ''official_updates_'' @ source"

section \<open>The store\<close>

text \<open>
  Times are milliseconds since the epoch. Identifiers are the store's UUIDs, read as
  numbers; a counter stands for \<^verbatim>\<open>gen_random_uuid()\<close>.
\<close>

type_synonym time = int

record cache_row =
  cache_value :: json
  expires_at :: time

record audit_entry =
  entry_action :: string
  entry_user_id :: string
  entry_timestamp :: time

text \<open>
  The column \<^verbatim>\<open>audit_trail JSONB DEFAULT '[]'\<close> may be null, an array of entries, or
  any other JSON value.
\<close>

datatype jsonb_trail = TrailNull | TrailArray "audit_entry list" | TrailOther

text \<open>A geography point, as the routes write it: longitude first, then latitude.\<close>

datatype geography = Point json json

record disaster =
  d_id :: nat
  d_title :: string
  d_location_name :: string
  d_location :: "geography option"
  d_description :: string
  d_tags :: "string list"
  d_owner_id :: string
  d_created_at :: time
  d_audit_trail :: jsonb_trail

record report =
  r_id :: nat
  r_disaster_id :: nat
  r_user_id :: string
  r_content :: string
  r_image_url :: "string option"
  r_verification_status :: string
  r_created_at :: time

record resource =
  res_id :: nat
  res_disaster_id :: nat
  res_name :: string
  res_location_name :: string
  res_location :: "geography option"
  res_type :: string
  res_created_at :: time

text \<open>
  What \<^verbatim>\<open>io.emit(name, payload)\<close> hands to the Socket.IO server. The disaster of a
  payload is \<open>None\<close> where the route passes on \<^verbatim>\<open>data[0]\<close> of an empty result.
\<close>

datatype payload =
    DisasterPayload string "disaster option"
  | DisasterDeletedPayload string nat
  | ReportCreatedPayload nat report
  | ResourcePayload string nat resource
  | ReportPayload string report

datatype event = Emit string payload

text \<open>
  A call of the store's client can return an error object or throw; which, if any, is
  not decided by the backend's code. The state carries the outcomes of the coming calls
  as a script: each call consumes the head, and an empty script means no fault. Every
  rejection by the store that the tables below do not decide themselves is such a fault.
\<close>

datatype fault = NoFault | DbError string | Throws

record state =
  cache :: "string \<rightharpoonup> cache_row"
  disasters :: "disaster list"
  reports :: "report list"
  resources :: "resource list"
  emitted :: "event list"
  io_initialized :: bool
  clock :: time
  faults :: "fault list"
  next_uuid :: nat

definition next_fault :: "state \<Rightarrow> fault \<times> state" where
  "next_fault st =
     (case faults st of
        [] \<Rightarrow> (NoFault, st)
      | f # fs \<Rightarrow> (f, st\<lparr>faults := fs\<rparr>))"

text \<open>
  The reply of a store call: it threw, it returned \<^verbatim>\<open>{data: null, error}\<close> with the
  error's code, or it returned \<^verbatim>\<open>{data, error: null}\<close>.
\<close>

datatype 'a db_reply = Thrown | Failed string | Ok 'a

text \<open>The result of a \<^verbatim>\<open>try\<close> block: an exception reached the \<^verbatim>\<open>catch\<close>, or a value.\<close>

datatype 'a outcome = Raised | Value 'a

section \<open>cacheService.js\<close>

definition CACHE_TTL_SECONDS :: int where
  "CACHE_TTL_SECONDS = 3600"

text \<open>A call of the store's client: the script decides whether it runs.\<close>

definition store_call :: "state \<Rightarrow> (state \<Rightarrow> 'a db_reply \<times> state) \<Rightarrow> 'a db_reply \<times> state" where
  "store_call st run =
     (case next_fault st of
        (Throws, st1) \<Rightarrow> (Thrown, st1)
      | (DbError code, st1) \<Rightarrow> (Failed code, st1)
      | (NoFault, st1) \<Rightarrow> run st1)"

text \<open>\<^verbatim>\<open>from('cache').select('value, expires_at').eq('key', key).single()\<close>\<close>

definition cache_select_single :: "string \<Rightarrow> state \<Rightarrow> cache_row db_reply \<times> state" where
  "cache_select_single key st =
     store_call st (\<lambda>st1.
       case cache st1 key of
         None \<Rightarrow> (Failed ''PGRST116'', st1)
       | Some row \<Rightarrow> (Ok row, st1))"

text \<open>\<^verbatim>\<open>from('cache').delete().eq('key', key)\<close>\<close>

definition cache_delete :: "string \<Rightarrow> state \<Rightarrow> unit db_reply \<times> state" where
  "cache_delete key st =
     store_call st (\<lambda>st1. (Ok (), st1\<lparr>cache := (cache st1)(key := None)\<rparr>))"

text \<open>
  \<^verbatim>\<open>from('cache').upsert({key, value, expires_at}, {onConflict: 'key'})\<close>. The column is
  \<^verbatim>\<open>value JSONB NOT NULL\<close>: a row whose value is null, or is a function (which the JSON
  text of the request leaves out), is refused with error 23502.
\<close>

definition storable :: "json \<Rightarrow> bool" where
  "storable v \<longleftrightarrow> v \<noteq> JNull \<and> v \<noteq> JFunction"

definition cache_upsert :: "string \<Rightarrow> cache_row \<Rightarrow> state \<Rightarrow> unit db_reply \<times> state" where
  "cache_upsert key row st =
     store_call st (\<lambda>st1.
       if \<not> storable (cache_value row) then (Failed ''23502'', st1)
       else (Ok (), st1\<lparr>cache := (cache st1)(key \<mapsto> row)\<rparr>))"

text \<open>The \<^verbatim>\<open>try\<close> block of \<open>getCache\<close>.\<close>

definition getCache_try :: "string \<Rightarrow> state \<Rightarrow> json outcome \<times> state" where
  "getCache_try key st =
     (case cache_select_single key st of
        (Thrown, st1) \<Rightarrow> (Raised, st1)
      | (Failed code, st1) \<Rightarrow>
          (if code \<noteq> ''PGRST116'' then (Value JNull, st1)
           else (Value JNull, st1))
      | (Ok row, st1) \<Rightarrow>
          (if expires_at row > clock st1 then (Value (cache_value row), st1)
           else
             (case cache_delete key st1 of
                (Thrown, st2) \<Rightarrow> (Raised, st2)
              | (_, st2) \<Rightarrow> (Value JNull, st2))))"

definition getCache :: "string \<Rightarrow> state \<Rightarrow> json \<times> state" where
  "getCache key st =
     (case getCache_try key st of
        (Raised, st1) \<Rightarrow> (JNull, st1)
      | (Value v, st1) \<Rightarrow> (v, st1))"

text \<open>
  A JavaScript \<open>Date\<close> holds at most 8.64e15 milliseconds either side of the epoch;
  \<^verbatim>\<open>toISOString\<close> throws a RangeError on a date outside.
\<close>

definition valid_date :: "time \<Rightarrow> bool" where
  "valid_date t \<longleftrightarrow> - 8640000000000000 \<le> t \<and> t \<le> 8640000000000000"

text \<open>The \<^verbatim>\<open>try\<close> block of \<open>setCache\<close>; \<open>Value ()\<close> also when the store returned an error.\<close>

definition setCache_try :: "string \<Rightarrow> json \<Rightarrow> int \<Rightarrow> state \<Rightarrow> unit outcome \<times> state" where
  "setCache_try key v ttlSeconds st =
     (let expiresAt = clock st + ttlSeconds * 1000 in
      if \<not> valid_date expiresAt then (Raised, st)
      else
        (case cache_upsert key \<lparr>cache_value = v, expires_at = expiresAt\<rparr> st of
           (Thrown, st1) \<Rightarrow> (Raised, st1)
         | (_, st1) \<Rightarrow> (Value (), st1)))"

definition setCache :: "string \<Rightarrow> json \<Rightarrow> int \<Rightarrow> state \<Rightarrow> state" where
  "setCache key v ttlSeconds st = snd (setCache_try key v ttlSeconds st)"

section \<open>geminiService.js and mappingService.js\<close>

text \<open>
  \<^verbatim>\<open>await new Promise(resolve => setTimeout(resolve, ms))\<close>: the simulated latency of a
  provider. The clock moves by the delay; every other step takes no time.
\<close>

definition sleep :: "int \<Rightarrow> state \<Rightarrow> state" where
  "sleep ms st = st\<lparr>clock := clock st + ms\<rparr>"

definition verify_image_authentic :: json where
  "verify_image_authentic =
     JObj [(''status'', JStr ''verified''),
           (''message'', JStr ''Image appears authentic and relevant to disaster context.'')]"

definition verify_image_manipulated :: json where
  "verify_image_manipulated =
     JObj [(''status'', JStr ''unverified''),
           (''message'', JStr ''Image shows signs of manipulation or is irrelevant.'')]"

definition verify_image_default :: json where
  "verify_image_default =
     JObj [(''status'', JStr ''pending''),
           (''message'', JStr ''Image verification in progress (mock).'')]"

text \<open>The mock's answer for a description, before it is cached.\<close>

definition mock_extract_location :: "string \<Rightarrow> string" where
  "mock_extract_location description =
     (if includes_str description ''NYC Flood'' then ''Manhattan, NYC''
      else if includes_str description ''Japan earthquake'' then ''Sendai, Japan''
      else ''Unknown Location'')"

definition extractLocationFromDescription :: "string \<Rightarrow> state \<Rightarrow> json \<times> state" where
  "extractLocationFromDescription description st =
     (let cacheKey = location_cache_key description in
      case getCache cacheKey st of
        (cached, st1) \<Rightarrow>
          if truthy cached then (cached, st1)
          else
            (let st2 = sleep 500 st1;
                 extractedLocation = JStr (mock_extract_location description);
                 st3 = setCache cacheKey extractedLocation CACHE_TTL_SECONDS st2
             in (extractedLocation, st3)))"

text \<open>The mock's answer for an image URL, before it is cached.\<close>

definition mock_verify_image :: "string \<Rightarrow> json" where
  "mock_verify_image imageUrl =
     (if includes_str imageUrl ''authentic'' then verify_image_authentic
      else if includes_str imageUrl ''manipulated'' then verify_image_manipulated
      else verify_image_default)"

definition verifyImage :: "string \<Rightarrow> state \<Rightarrow> json \<times> state" where
  "verifyImage imageUrl st =
     (let cacheKey = image_cache_key imageUrl in
      case getCache cacheKey st of
        (cached, st1) \<Rightarrow>
          if truthy cached then (cached, st1)
          else
            (let st2 = sleep 800 st1;
                 verificationResult = mock_verify_image imageUrl;
                 st3 = setCache cacheKey verificationResult CACHE_TTL_SECONDS st2
             in (verificationResult, st3)))"

definition coords :: "rat \<Rightarrow> rat \<Rightarrow> json" where
  "coords lat lon = JObj [(''lat'', JNum lat), (''lon'', JNum lon)]"

definition MOCK_GEOCODE_RESPONSES :: "(string \<times> json) list" where
  "MOCK_GEOCODE_RESPONSES =
     [(''Manhattan, NYC'', coords (407831 / 10000) (- 739712 / 10000)),
      (''Lower East Side, NYC'', coords (407145 / 10000) (- 739882 / 10000)),
      (''Sendai, Japan'', coords (382682 / 10000) (1408694 / 10000)),
      (''Unknown Location'', coords 0 0)]"

text \<open>
  \<^verbatim>\<open>MOCK_GEOCODE_RESPONSES[locationName]\<close> reads a property of an object literal, so a
  name the literal does not have is looked up in \<^verbatim>\<open>Object.prototype\<close>:
  \<^verbatim>\<open>__proto__\<close> yields the prototype itself (an object with no \<^verbatim>\<open>lat\<close> or \<^verbatim>\<open>lon\<close>,
  whose JSON text is \<^verbatim>\<open>{}\<close>), and the prototype's methods yield functions.
\<close>

definition object_prototype_methods :: "string list" where
  "object_prototype_methods =
     [''constructor'', ''hasOwnProperty'', ''isPrototypeOf'', ''propertyIsEnumerable'',
      ''toLocaleString'', ''toString'', ''valueOf'', ''__defineGetter__'',
      ''__defineSetter__'', ''__lookupGetter__'', ''__lookupSetter__'']"

definition mock_geocode_lookup :: "string \<Rightarrow> json option" where
  "mock_geocode_lookup locationName =
     (case map_of MOCK_GEOCODE_RESPONSES locationName of
        Some c \<Rightarrow> Some c
      | None \<Rightarrow>
          if locationName = ''__proto__'' then Some (JObj [])
          else if locationName \<in> set object_prototype_methods then Some JFunction
          else None)"

text \<open>\<^verbatim>\<open>MOCK_GEOCODE_RESPONSES[locationName] || MOCK_GEOCODE_RESPONSES["Unknown Location"]\<close>\<close>

definition mock_geocode :: "string \<Rightarrow> json" where
  "mock_geocode locationName =
     (case mock_geocode_lookup locationName of
        Some c \<Rightarrow> c
      | None \<Rightarrow> coords 0 0)"

definition geocodeLocation :: "string \<Rightarrow> state \<Rightarrow> json \<times> state" where
  "geocodeLocation locationName st =
     (let cacheKey = geocode_cache_key locationName in
      case getCache cacheKey st of
        (cached, st1) \<Rightarrow>
          if truthy cached then (cached, st1)
          else
            (let st2 = sleep 300 st1;
                 c = mock_geocode locationName;
                 st3 = setCache cacheKey c CACHE_TTL_SECONDS st2
             in (c, st3)))"

section \<open>The record tables (supabase-schema.sql)\<close>

text \<open>
  \<^verbatim>\<open>insert({title, location_name, description, tags, owner_id, audit_trail}).select()\<close>:
  the store gives the row its id and its creation time; \<^verbatim>\<open>location\<close> stays null.
\<close>

definition disasters_insert ::
    "string \<Rightarrow> string \<Rightarrow> string \<Rightarrow> string list \<Rightarrow> string \<Rightarrow> jsonb_trail \<Rightarrow> state
      \<Rightarrow> disaster list db_reply \<times> state" where
  "disasters_insert title location_name description tags owner_id audit_trail st =
     store_call st (\<lambda>st1.
       let row = \<lparr>d_id = next_uuid st1, d_title = title, d_location_name = location_name,
                  d_location = None, d_description = description, d_tags = tags,
                  d_owner_id = owner_id, d_created_at = clock st1,
                  d_audit_trail = audit_trail\<rparr>
       in (Ok [row], st1\<lparr>disasters := disasters st1 @ [row], next_uuid := Suc (next_uuid st1)\<rparr>))"

text \<open>
  \<^verbatim>\<open>select(...).eq('id', id).single()\<close>: error PGRST116 unless exactly one row matches.
\<close>

definition disasters_select_single :: "nat \<Rightarrow> state \<Rightarrow> disaster db_reply \<times> state" where
  "disasters_select_single i st =
     store_call st (\<lambda>st1.
       case filter (\<lambda>d. d_id d = i) (disasters st1) of
         [d] \<Rightarrow> (Ok d, st1)
       | _ \<Rightarrow> (Failed ''PGRST116'', st1))"

text \<open>\<^verbatim>\<open>update(payload).eq('id', id).select()\<close>: the rows it changed come back.\<close>

definition disasters_update_by_id ::
    "nat \<Rightarrow> (disaster \<Rightarrow> disaster) \<Rightarrow> state \<Rightarrow> disaster list db_reply \<times> state" where
  "disasters_update_by_id i payload st =
     store_call st (\<lambda>st1.
       let rows = map (\<lambda>d. if d_id d = i then payload d else d) (disasters st1)
       in (Ok (filter (\<lambda>d. d_id d = i) rows), st1\<lparr>disasters := rows\<rparr>))"

text \<open>
  \<^verbatim>\<open>delete().eq('id', id)\<close>; reports and resources reference the disaster
  \<^verbatim>\<open>ON DELETE CASCADE\<close>.
\<close>

definition disasters_delete :: "nat \<Rightarrow> state \<Rightarrow> unit db_reply \<times> state" where
  "disasters_delete i st =
     store_call st (\<lambda>st1.
       (Ok (), st1\<lparr>disasters := filter (\<lambda>d. d_id d \<noteq> i) (disasters st1),
                    reports := filter (\<lambda>r. r_disaster_id r \<noteq> i) (reports st1),
                    resources := filter (\<lambda>r. res_disaster_id r \<noteq> i) (resources st1)\<rparr>))"

definition disaster_exists :: "nat \<Rightarrow> state \<Rightarrow> bool" where
  "disaster_exists i st \<longleftrightarrow> i \<in> d_id ` set (disasters st)"

text \<open>
  \<^verbatim>\<open>insert({disaster_id, user_id, content, image_url, verification_status}).select()\<close>;
  \<^verbatim>\<open>disaster_id\<close> references \<^verbatim>\<open>disasters(id)\<close> (error 23503 when there is none).
\<close>

definition reports_insert ::
    "nat \<Rightarrow> string \<Rightarrow> string \<Rightarrow> string option \<Rightarrow> string \<Rightarrow> state
      \<Rightarrow> report list db_reply \<times> state" where
  "reports_insert disaster_id user_id content image_url verification_status st =
     store_call st (\<lambda>st1.
       if \<not> disaster_exists disaster_id st1 then (Failed ''23503'', st1)
       else
         let row = \<lparr>r_id = next_uuid st1, r_disaster_id = disaster_id, r_user_id = user_id,
                    r_content = content, r_image_url = image_url,
                    r_verification_status = verification_status,
                    r_created_at = clock st1\<rparr>
         in (Ok [row], st1\<lparr>reports := reports st1 @ [row], next_uuid := Suc (next_uuid st1)\<rparr>))"

text \<open>
  \<^verbatim>\<open>update({verification_status}).eq('id', reportId).eq('disaster_id', disasterId).select()\<close>.
  The column is \<^verbatim>\<open>TEXT NOT NULL\<close>; the store is taken to refuse a status that is not
  a string.
\<close>

definition reports_update_status ::
    "nat \<Rightarrow> nat \<Rightarrow> json option \<Rightarrow> state \<Rightarrow> report list db_reply \<times> state" where
  "reports_update_status reportId disasterId new_status st =
     store_call st (\<lambda>st1.
       case new_status of
         Some (JStr s) \<Rightarrow>
           let hit = (\<lambda>r. r_id r = reportId \<and> r_disaster_id r = disasterId);
               rows = map (\<lambda>r. if hit r then r\<lparr>r_verification_status := s\<rparr> else r) (reports st1)
           in (Ok (filter hit rows), st1\<lparr>reports := rows\<rparr>)
       | _ \<Rightarrow> (Failed ''23502'', st1))"

text \<open>\<^verbatim>\<open>insert({disaster_id, name, location_name, type, location}).select()\<close>\<close>

definition resources_insert ::
    "nat \<Rightarrow> string \<Rightarrow> string \<Rightarrow> string \<Rightarrow> geography \<Rightarrow> state
      \<Rightarrow> resource list db_reply \<times> state" where
  "resources_insert disaster_id name location_name type location st =
     store_call st (\<lambda>st1.
       if \<not> disaster_exists disaster_id st1 then (Failed ''23503'', st1)
       else
         let row = \<lparr>res_id = next_uuid st1, res_disaster_id = disaster_id, res_name = name,
                    res_location_name = location_name, res_location = Some location,
                    res_type = type, res_created_at = clock st1\<rparr>
         in (Ok [row], st1\<lparr>resources := resources st1 @ [row], next_uuid := Suc (next_uuid st1)\<rparr>))"

text \<open>
  The stored procedure \<^verbatim>\<open>find_nearby_resources\<close>: the rows of the disaster with
  \<^verbatim>\<open>ST_DWithin(r.location, target_point::GEOGRAPHY, max_distance_meters)\<close>, with no
  \<^verbatim>\<open>ORDER BY\<close>: the rows come as the table holds them. \<open>distance\<close> is the geodesic
  distance of PostGIS in metres, a parameter of the model; \<^verbatim>\<open>ST_DWithin\<close> is false
  on a null location. The procedure is declared by the schema; the one call of it in the
  routes, in \<^verbatim>\<open>GET /:disasterId/resources\<close>, does not reach the store (see
  \<open>builder_rpc\<close> below).
\<close>

definition ST_DWithin ::
    "(geography \<Rightarrow> geography \<Rightarrow> real) \<Rightarrow> geography option \<Rightarrow> geography \<Rightarrow> int \<Rightarrow> bool" where
  "ST_DWithin distance location target_point max_distance_meters =
     (case location of
        None \<Rightarrow> False
      | Some p \<Rightarrow> distance p target_point \<le> of_int max_distance_meters)"

definition find_nearby_resources ::
    "(geography \<Rightarrow> geography \<Rightarrow> real) \<Rightarrow> resource list \<Rightarrow> nat \<Rightarrow> geography \<Rightarrow> int
      \<Rightarrow> resource list" where
  "find_nearby_resources distance table disaster_id_param target_point max_distance_meters =
     filter (\<lambda>r. res_disaster_id r = disaster_id_param \<and>
                  ST_DWithin distance (res_location r) target_point max_distance_meters) table"

section \<open>Requests, responses and the Socket.IO server\<close>

datatype body =
    Message string
  | DisasterBody "disaster option"
  | ReportBody report
  | ResourceBody resource
  | ResourceList "resource list"
  | VerifiedReportBody report "json option"

record response =
  status :: nat
  content :: body

definition reply :: "nat \<Rightarrow> body \<Rightarrow> response" where
  "reply code b = \<lparr>status = code, content = b\<rparr>"

text \<open>
  \<^verbatim>\<open>getSocketIO().emit(name, payload)\<close>: \<open>getSocketIO\<close> throws while the server is not
  initialised; otherwise the event goes out.
\<close>

definition emit :: "string \<Rightarrow> payload \<Rightarrow> state \<Rightarrow> unit outcome \<times> state" where
  "emit name p st =
     (if io_initialized st then (Value (), st\<lparr>emitted := emitted st @ [Emit name p]\<rparr>)
      else (Raised, st))"

section \<open>authMiddleware.js\<close>

record user =
  u_id :: string
  u_username :: string
  u_roles :: "string list"

definition mockUsers :: "user list" where
  "mockUsers =
     [\<lparr>u_id = ''netrunnerX'', u_username = ''netrunnerX'', u_roles = [''admin'', ''contributor'']\<rparr>,
      \<lparr>u_id = ''reliefAdmin'', u_username = ''reliefAdmin'', u_roles = [''admin'']\<rparr>,
      \<lparr>u_id = ''citizen1'', u_username = ''citizen1'', u_roles = [''citizen'']\<rparr>,
      \<lparr>u_id = ''volunteerA'', u_username = ''volunteerA'', u_roles = [''contributor'']\<rparr>]"

text \<open>The argument is the header \<^verbatim>\<open>x-user-id\<close>, \<open>None\<close> when the request has none.\<close>

definition authenticate :: "string option \<Rightarrow> response + user" where
  "authenticate userId =
     (case userId of
        None \<Rightarrow> Inl (reply 401 (Message ''Authentication required. Please provide x-user-id header.''))
      | Some uid \<Rightarrow>
          if uid = [] then
            Inl (reply 401 (Message ''Authentication required. Please provide x-user-id header.''))
          else
            (case find (\<lambda>u. u_id u = uid) mockUsers of
               None \<Rightarrow> Inl (reply 403 (Message ''Invalid user ID.''))
             | Some u \<Rightarrow> Inr u))"

definition authorize :: "string list \<Rightarrow> user \<Rightarrow> bool" where
  "authorize allowedRoles u \<longleftrightarrow> list_ex (\<lambda>role. role \<in> set (u_roles u)) allowedRoles"

text \<open>A route behind \<^verbatim>\<open>authenticate, authorize(allowedRoles)\<close>.\<close>

definition guarded ::
    "string list \<Rightarrow> string option \<Rightarrow> (user \<Rightarrow> state \<Rightarrow> response \<times> state) \<Rightarrow> state
      \<Rightarrow> response \<times> state" where
  "guarded allowedRoles userId handler st =
     (case authenticate userId of
        Inl r \<Rightarrow> (r, st)
      | Inr u \<Rightarrow>
          if \<not> authorize allowedRoles u then
            (reply 403 (Message ''Forbidden: You do not have the necessary permissions.''), st)
          else handler u st)"

section \<open>disasterRoutes.js\<close>

definition addAuditEntry :: "jsonb_trail \<Rightarrow> string \<Rightarrow> string \<Rightarrow> time \<Rightarrow> jsonb_trail" where
  "addAuditEntry currentAuditTrail act userId now =
     (let newEntry = \<lparr>entry_action = act, entry_user_id = userId, entry_timestamp = now\<rparr> in
      case currentAuditTrail of
        TrailArray entries \<Rightarrow> TrailArray (entries @ [newEntry])
      | _ \<Rightarrow> TrailArray [newEntry])"

text \<open>
  The JSON body of a disaster request. A field is \<open>None\<close> when the body has no string
  under that name (no array, for \<^verbatim>\<open>tags\<close>); \<open>b_other_keys\<close> tells whether the body
  has any key beyond the fields given here.
\<close>

record disaster_body =
  b_title :: "string option"
  b_location_name :: "string option"
  b_description :: "string option"
  b_tags :: "string list option"
  b_other_keys :: bool

definition post_disaster_handler :: "disaster_body \<Rightarrow> user \<Rightarrow> state \<Rightarrow> response \<times> state" where
  "post_disaster_handler b usr st =
     (case (b_title b, b_location_name b, b_description b, b_tags b) of
        (Some title, Some location_name, Some description, Some tags) \<Rightarrow>
          if title = [] \<or> location_name = [] \<or> description = [] \<or> tags = [] then
            (reply 400 (Message ''Missing required fields: title, location_name, description, tags.''), st)
          else
            (let owner_id = u_id usr;
                 audit_trail = addAuditEntry (TrailArray []) ''create'' owner_id (clock st)
             in case disasters_insert title location_name description tags owner_id audit_trail st of
                  (Thrown, st1) \<Rightarrow> (reply 500 (Message ''Internal server error.''), st1)
                | (Failed code, st1) \<Rightarrow> (reply 500 (Message ''Error creating disaster.''), st1)
                | (Ok [], st1) \<Rightarrow> (reply 500 (Message ''Internal server error.''), st1)
                | (Ok (newDisaster # _), st1) \<Rightarrow>
                    (case emit ''disaster_updated'' (DisasterPayload ''created'' (Some newDisaster)) st1 of
                       (Raised, st2) \<Rightarrow> (reply 500 (Message ''Internal server error.''), st2)
                     | (Value _, st2) \<Rightarrow> (reply 201 (DisasterBody (Some newDisaster)), st2)))
      | _ \<Rightarrow>
          (reply 400 (Message ''Missing required fields: title, location_name, description, tags.''), st))"

definition post_disaster :: "string option \<Rightarrow> disaster_body \<Rightarrow> state \<Rightarrow> response \<times> state" where
  "post_disaster userId b = guarded [''admin'', ''contributor''] userId (post_disaster_handler b)"

text \<open>\<^verbatim>\<open>Object.keys(req.body).length === 0\<close>\<close>

definition body_empty :: "disaster_body \<Rightarrow> bool" where
  "body_empty b \<longleftrightarrow>
     b_title b = None \<and> b_location_name b = None \<and> b_description b = None \<and>
     b_tags b = None \<and> \<not> b_other_keys b"

text \<open>\<^verbatim>\<open>if (title) updatePayload.title = title\<close>, and so on: what the update writes.\<close>

definition truthy_or :: "string option \<Rightarrow> string \<Rightarrow> string" where
  "truthy_or field old = (case field of Some s \<Rightarrow> if s \<noteq> [] then s else old | None \<Rightarrow> old)"

definition updatePayload :: "disaster_body \<Rightarrow> jsonb_trail \<Rightarrow> disaster \<Rightarrow> disaster" where
  "updatePayload b updatedAuditTrail d =
     d\<lparr>d_audit_trail := updatedAuditTrail,
       d_title := truthy_or (b_title b) (d_title d),
       d_location_name := truthy_or (b_location_name b) (d_location_name d),
       d_description := truthy_or (b_description b) (d_description d),
       d_tags := (case b_tags b of Some tags \<Rightarrow> tags | None \<Rightarrow> d_tags d)\<rparr>"

text \<open>
  \<^verbatim>\<open>existingDisaster.audit_trail || []\<close>. A value that is neither null nor an array
  is passed on here whether it is falsy or not: \<open>addAuditEntry\<close> starts a fresh trail
  from every value that is not an array, as it does from the empty array.
\<close>

definition or_empty :: "jsonb_trail \<Rightarrow> jsonb_trail" where
  "or_empty t = (case t of TrailNull \<Rightarrow> TrailArray [] | _ \<Rightarrow> t)"

definition first :: "'a list \<Rightarrow> 'a option" where
  "first xs = (case xs of [] \<Rightarrow> None | x # _ \<Rightarrow> Some x)"

definition put_disaster_handler ::
    "nat \<Rightarrow> disaster_body \<Rightarrow> user \<Rightarrow> state \<Rightarrow> response \<times> state" where
  "put_disaster_handler i b usr st =
     (let updaterId = u_id usr in
      if body_empty b then (reply 400 (Message ''No fields provided for update.''), st)
      else
        (case disasters_select_single i st of
           (Thrown, st1) \<Rightarrow> (reply 500 (Message ''Internal server error.''), st1)
         | (Failed code, st1) \<Rightarrow>
             if code = ''PGRST116'' then (reply 404 (Message ''Disaster not found.''), st1)
             else (reply 500 (Message ''Error checking disaster for update.''), st1)
         | (Ok existingDisaster, st1) \<Rightarrow>
             if ''admin'' \<in> set (u_roles usr) \<or> d_owner_id existingDisaster = updaterId then
               (let currentAuditTrail = or_empty (d_audit_trail existingDisaster);
                    updatedAuditTrail = addAuditEntry currentAuditTrail ''update'' updaterId (clock st1)
                in case disasters_update_by_id i (updatePayload b updatedAuditTrail) st1 of
                     (Thrown, st2) \<Rightarrow> (reply 500 (Message ''Internal server error.''), st2)
                   | (Failed code, st2) \<Rightarrow> (reply 500 (Message ''Error updating disaster.''), st2)
                   | (Ok data, st2) \<Rightarrow>
                       (case emit ''disaster_updated'' (DisasterPayload ''updated'' (first data)) st2 of
                          (Raised, st3) \<Rightarrow> (reply 500 (Message ''Internal server error.''), st3)
                        | (Value _, st3) \<Rightarrow> (reply 200 (DisasterBody (first data)), st3)))
             else
               (reply 403 (Message ''Forbidden: You do not have permission to update this disaster.''),
                st1)))"

definition put_disaster :: "string option \<Rightarrow> nat \<Rightarrow> disaster_body \<Rightarrow> state \<Rightarrow> response \<times> state" where
  "put_disaster userId i b = guarded [''admin'', ''contributor''] userId (put_disaster_handler i b)"

definition delete_disaster_handler :: "nat \<Rightarrow> user \<Rightarrow> state \<Rightarrow> response \<times> state" where
  "delete_disaster_handler i usr st =
     (let deleterId = u_id usr in
      case disasters_select_single i st of
        (Thrown, st1) \<Rightarrow> (reply 500 (Message ''Internal server error.''), st1)
      | (Failed code, st1) \<Rightarrow>
          if code = ''PGRST116'' then (reply 404 (Message ''Disaster not found.''), st1)
          else (reply 500 (Message ''Error checking disaster for deletion.''), st1)
      | (Ok existingDisaster, st1) \<Rightarrow>
          if ''admin'' \<in> set (u_roles usr) \<or> d_owner_id existingDisaster = deleterId then
            (case disasters_delete i st1 of
               (Thrown, st2) \<Rightarrow> (reply 500 (Message ''Internal server error.''), st2)
             | (Failed code, st2) \<Rightarrow> (reply 500 (Message ''Error deleting disaster.''), st2)
             | (Ok _, st2) \<Rightarrow>
                 (case emit ''disaster_updated'' (DisasterDeletedPayload ''deleted'' i) st2 of
                    (Raised, st3) \<Rightarrow> (reply 500 (Message ''Internal server error.''), st3)
                  | (Value _, st3) \<Rightarrow> (reply 200 (Message ''Disaster deleted successfully.''), st3)))
          else
            (reply 403 (Message ''Forbidden: You do not have permission to delete this disaster.''),
             st1))"

definition delete_disaster :: "string option \<Rightarrow> nat \<Rightarrow> state \<Rightarrow> response \<times> state" where
  "delete_disaster userId i = guarded [''admin'', ''contributor''] userId (delete_disaster_handler i)"

section \<open>reportRoutes.js\<close>

record report_body =
  rb_content :: "string option"
  rb_image_url :: "string option"

definition post_report_handler :: "nat \<Rightarrow> report_body \<Rightarrow> user \<Rightarrow> state \<Rightarrow> response \<times> state" where
  "post_report_handler disasterId b usr st =
     (let user_id = u_id usr in
      case rb_content b of
        None \<Rightarrow> (reply 400 (Message ''Report content is required.''), st)
      | Some c \<Rightarrow>
          if c = [] then (reply 400 (Message ''Report content is required.''), st)
          else
            (case reports_insert disasterId user_id c (rb_image_url b) ''pending'' st of
               (Thrown, st1) \<Rightarrow>
                 (reply 500 (Message ''Internal server error while submitting report.''), st1)
             | (Failed code, st1) \<Rightarrow> (reply 500 (Message ''Error submitting report.''), st1)
             | (Ok [], st1) \<Rightarrow>
                 (reply 500 (Message ''Internal server error while submitting report.''), st1)
             | (Ok (newReport # _), st1) \<Rightarrow>
                 (case emit ''report_created'' (ReportCreatedPayload disasterId newReport) st1 of
                    (Raised, st2) \<Rightarrow>
                      (reply 500 (Message ''Internal server error while submitting report.''), st2)
                  | (Value _, st2) \<Rightarrow> (reply 201 (ReportBody newReport), st2))))"

definition post_report :: "string option \<Rightarrow> nat \<Rightarrow> report_body \<Rightarrow> state \<Rightarrow> response \<times> state" where
  "post_report userId disasterId b =
     guarded [''citizen'', ''contributor''] userId (post_report_handler disasterId b)"

section \<open>resourceRoutes.js\<close>

text \<open>
  \<^verbatim>\<open>!coords || typeof coords.lat === 'undefined' || typeof coords.lon === 'undefined'\<close>
  is the negation of this test.
\<close>

definition usable_point :: "json \<Rightarrow> bool" where
  "usable_point c \<longleftrightarrow> truthy c \<and> get_prop c ''lat'' \<noteq> None \<and> get_prop c ''lon'' \<noteq> None"

text \<open>The point the routes write from usable coordinates: longitude, then latitude.\<close>

definition point_of :: "json \<Rightarrow> geography" where
  "point_of c =
     Point (case get_prop c ''lon'' of Some x \<Rightarrow> x | None \<Rightarrow> JNull)
           (case get_prop c ''lat'' of Some y \<Rightarrow> y | None \<Rightarrow> JNull)"

record resource_body =
  sb_name :: "string option"
  sb_location_name :: "string option"
  sb_type :: "string option"

definition post_resource_handler ::
    "nat \<Rightarrow> resource_body \<Rightarrow> user \<Rightarrow> state \<Rightarrow> response \<times> state" where
  "post_resource_handler disasterId b usr st =
     (case (sb_name b, sb_location_name b, sb_type b) of
        (Some name, Some location_name, Some type) \<Rightarrow>
          if name = [] \<or> location_name = [] \<or> type = [] then
            (reply 400 (Message ''Missing required fields: name, location_name, type.''), st)
          else
            (case geocodeLocation location_name st of
               (c, st1) \<Rightarrow>
                 if \<not> usable_point c then
                   (reply 400 (Message ''Could not geocode the provided resource location.''), st1)
                 else
                   (case resources_insert disasterId name location_name type (point_of c) st1 of
                      (Thrown, st2) \<Rightarrow>
                        (reply 500 (Message ''Internal server error while adding resource.''), st2)
                    | (Failed code, st2) \<Rightarrow> (reply 500 (Message ''Error adding resource.''), st2)
                    | (Ok [], st2) \<Rightarrow>
                        (reply 500 (Message ''Internal server error while adding resource.''), st2)
                    | (Ok (newResource # _), st2) \<Rightarrow>
                        (case emit ''resources_updated''
                                (ResourcePayload ''created'' disasterId newResource) st2 of
                           (Raised, st3) \<Rightarrow>
                             (reply 500 (Message ''Internal server error while adding resource.''), st3)
                         | (Value _, st3) \<Rightarrow> (reply 201 (ResourceBody newResource), st3))))
      | _ \<Rightarrow> (reply 400 (Message ''Missing required fields: name, location_name, type.''), st))"

definition post_resource ::
    "string option \<Rightarrow> nat \<Rightarrow> resource_body \<Rightarrow> state \<Rightarrow> response \<times> state" where
  "post_resource userId disasterId b =
     guarded [''admin'', ''contributor''] userId (post_resource_handler disasterId b)"

text \<open>
  The query string of \<^verbatim>\<open>GET /:disasterId/resources\<close>. \<open>parseFloat\<close> and \<open>parseInt\<close>
  are the runtime's, parameters of the model; \<open>None\<close> is their \<^verbatim>\<open>NaN\<close>.
\<close>

record resources_query =
  q_lat :: "string option"
  q_lon :: "string option"
  q_radius :: "string option"
  q_type :: "string option"

definition truthy_param :: "string option \<Rightarrow> string option" where
  "truthy_param p = (case p of Some s \<Rightarrow> if s = [] then None else Some s | None \<Rightarrow> None)"

text \<open>\<^verbatim>\<open>if (type) query = query.eq('type', type)\<close>\<close>

definition eq_type :: "string option \<Rightarrow> resource list \<Rightarrow> resource list" where
  "eq_type type rows =
     (case truthy_param type of
        None \<Rightarrow> rows
      | Some t \<Rightarrow> filter (\<lambda>r. res_type r = t) rows)"

text \<open>\<^verbatim>\<open>await query\<close>: one call of the store, which reads the resources table.\<close>

definition run_resources_query ::
    "(resource list \<Rightarrow> resource list) \<Rightarrow> state \<Rightarrow> response \<times> state" where
  "run_resources_query sel st =
     (case store_call st (\<lambda>st1. (Ok (sel (resources st1)), st1)) of
        (Thrown, st1) \<Rightarrow>
          (reply 500 (Message ''Internal server error while fetching resources.''), st1)
      | (Failed code, st1) \<Rightarrow> (reply 500 (Message ''Error fetching resources.''), st1)
      | (Ok data, st1) \<Rightarrow> (reply 200 (ResourceList data), st1))"

text \<open>
  The route first builds
  \<^verbatim>\<open>supabase.from('resources').select('*').eq('disaster_id', disasterId).order('created_at', {ascending: false})\<close>,
  a filter builder of the store's client. With \<^verbatim>\<open>lat\<close> and \<^verbatim>\<open>lon\<close> it then evaluates
  \<^verbatim>\<open>query.rpc('find_nearby_resources', {...})\<close> on that builder. \<^verbatim>\<open>rpc\<close> is a method of the
  client, not of the builder it returns: \<^verbatim>\<open>query.rpc\<close> is \<^verbatim>\<open>undefined\<close>, and calling it
  throws a \<^verbatim>\<open>TypeError\<close>, whatever the arguments, before any request is sent to the store.
\<close>

definition builder_rpc ::
    "string \<Rightarrow> nat \<Rightarrow> geography \<Rightarrow> int \<Rightarrow> (resource list \<Rightarrow> resource list) outcome" where
  "builder_rpc fn disaster_id_param target_point max_distance_meters = Raised"

text \<open>
  The whole body of the route is inside \<^verbatim>\<open>try\<close>: the exception of \<^verbatim>\<open>query.rpc\<close> is caught
  and answered with 500 and the message of the \<^verbatim>\<open>catch\<close> block. The validation of
  \<^verbatim>\<open>lat\<close>, \<^verbatim>\<open>lon\<close> and \<^verbatim>\<open>radius\<close> comes before the call and answers 400. Without
  \<^verbatim>\<open>lat\<close> or \<^verbatim>\<open>lon\<close> the query is the disaster's rows ordered by \<^verbatim>\<open>created_at\<close>
  descending, narrowed by \<^verbatim>\<open>type\<close>.
\<close>

definition get_resources ::
    "(string \<Rightarrow> rat option) \<Rightarrow> (string \<Rightarrow> int option)
      \<Rightarrow> nat \<Rightarrow> resources_query \<Rightarrow> state \<Rightarrow> response \<times> state" where
  "get_resources parseFloat parseInt disasterId q st =
     (case (truthy_param (q_lat q), truthy_param (q_lon q)) of
        (Some lat, Some lon) \<Rightarrow>
          (case (parseFloat lat, parseFloat lon,
                 (case q_radius q of None \<Rightarrow> Some 10000 | Some radius \<Rightarrow> parseInt radius)) of
             (Some parsedLat, Some parsedLon, Some parsedRadius) \<Rightarrow>
               if parsedRadius \<le> 0 then
                 (reply 400 (Message ''Invalid latitude, longitude, or radius provided.''), st)
               else
                 (case builder_rpc ''find_nearby_resources'' disasterId
                         (Point (JNum parsedLon) (JNum parsedLat)) parsedRadius of
                    Raised \<Rightarrow>
                      (reply 500 (Message ''Internal server error while fetching resources.''), st)
                  | Value nearby \<Rightarrow>
                      run_resources_query (\<lambda>table. eq_type (q_type q) (nearby table)) st)
           | _ \<Rightarrow> (reply 400 (Message ''Invalid latitude, longitude, or radius provided.''), st))
      | _ \<Rightarrow>
          run_resources_query
            (\<lambda>table. eq_type (q_type q)
               (sort_key (\<lambda>r. - res_created_at r)
                  (filter (\<lambda>r. res_disaster_id r = disasterId) table))) st)"

section \<open>verificationRoutes.js\<close>

definition verify_image_handler ::
    "nat \<Rightarrow> nat \<Rightarrow> string option \<Rightarrow> user \<Rightarrow> state \<Rightarrow> response \<times> state" where
  "verify_image_handler disasterId reportId imageUrl usr st =
     (case truthy_param imageUrl of
        None \<Rightarrow> (reply 400 (Message ''Image URL is required for verification.''), st)
      | Some url \<Rightarrow>
          (case verifyImage url st of
             (verificationResult, st1) \<Rightarrow>
               (case reports_update_status reportId disasterId
                       (get_prop verificationResult ''status'') st1 of
                  (Thrown, st2) \<Rightarrow>
                    (reply 500 (Message ''Internal server error during image verification.''), st2)
                | (Failed code, st2) \<Rightarrow>
                    (reply 500 (Message ''Error updating report verification status.''), st2)
                | (Ok [], st2) \<Rightarrow>
                    (reply 404 (Message ''Report not found for image verification update.''), st2)
                | (Ok (updatedReport # _), st2) \<Rightarrow>
                    (case emit ''report_updated''
                            (ReportPayload ''verification_status_updated'' updatedReport) st2 of
                       (Raised, st3) \<Rightarrow>
                         (reply 500 (Message ''Internal server error during image verification.''),
                          st3)
                     | (Value _, st3) \<Rightarrow>
                         (reply 200 (VerifiedReportBody updatedReport
                                       (get_prop verificationResult ''message'')), st3)))))"

definition verify_image ::
    "string option \<Rightarrow> nat \<Rightarrow> nat \<Rightarrow> string option \<Rightarrow> state \<Rightarrow> response \<times> state" where
  "verify_image userId disasterId reportId imageUrl =
     guarded [''admin'', ''contributor''] userId (verify_image_handler disasterId reportId imageUrl)"

section \<open>geocodingRoutes.js\<close>

record geocode_body =
  g_disasterId :: "nat option"
  g_description :: "string option"

text \<open>
  \<^verbatim>\<open>update({location_name, location: pointWkt}).eq('id', disasterId).select()\<close> goes
  through \<open>disasters_update_by_id\<close>. An extracted location that is not a string has no
  \<^verbatim>\<open>replace\<close>: \<open>geocodeLocation\<close> throws a TypeError, which the route catches.
\<close>

definition post_geocode_handler :: "geocode_body \<Rightarrow> user \<Rightarrow> state \<Rightarrow> response \<times> state" where
  "post_geocode_handler b usr st =
     (case (g_disasterId b, truthy_param (g_description b)) of
        (Some disasterId, Some description) \<Rightarrow>
          (case extractLocationFromDescription description st of
             (extractedLocationName, st1) \<Rightarrow>
               if \<not> truthy extractedLocationName \<or> extractedLocationName = JStr ''Unknown Location''
               then
                 (reply 400
                    (Message ''Could not extract a valid location from the provided description.''),
                  st1)
               else
                 (case extractedLocationName of
                    JStr locationName \<Rightarrow>
                      (case geocodeLocation locationName st1 of
                         (c, st2) \<Rightarrow>
                           if \<not> usable_point c then
                             (reply 400 (Message ''Could not geocode the extracted location.''), st2)
                           else
                             (case disasters_update_by_id disasterId
                                     (\<lambda>d. d\<lparr>d_location_name := locationName,
                                             d_location := Some (point_of c)\<rparr>) st2 of
                                (Thrown, st3) \<Rightarrow>
                                  (reply 500 (Message ''Internal server error during geocoding.''), st3)
                              | (Failed code, st3) \<Rightarrow>
                                  (reply 500
                                     (Message ''Error updating disaster with geocoded location.''),
                                   st3)
                              | (Ok [], st3) \<Rightarrow>
                                  (reply 404
                                     (Message ''Disaster not found for updating geocoded location.''),
                                   st3)
                              | (Ok (updatedDisaster # _), st3) \<Rightarrow>
                                  (case emit ''disaster_updated''
                                          (DisasterPayload ''location_updated'' (Some updatedDisaster))
                                          st3 of
                                     (Raised, st4) \<Rightarrow>
                                       (reply 500 (Message ''Internal server error during geocoding.''),
                                        st4)
                                   | (Value _, st4) \<Rightarrow>
                                       (reply 200 (DisasterBody (Some updatedDisaster)), st4))))
                  | _ \<Rightarrow> (reply 500 (Message ''Internal server error during geocoding.''), st1)))
      | _ \<Rightarrow> (reply 400 (Message ''Missing required fields: disasterId and description.''), st))"

definition post_geocode :: "string option \<Rightarrow> geocode_body \<Rightarrow> state \<Rightarrow> response \<times> state" where
  "post_geocode userId b = guarded [''admin'', ''contributor''] userId (post_geocode_handler b)"

section \<open>The mutation endpoints (app.js)\<close>

text \<open>
  The routes that write to the record tables, with the header \<^verbatim>\<open>x-user-id\<close> first.
  Every other route of the application only reads them.
\<close>

datatype request =
    PostDisaster "string option" disaster_body
  | PutDisaster "string option" nat disaster_body
  | DeleteDisaster "string option" nat
  | PostReport "string option" nat report_body
  | PostResource "string option" nat resource_body
  | VerifyImage "string option" nat nat "string option"
  | PostGeocode "string option" geocode_body

fun handle :: "request \<Rightarrow> state \<Rightarrow> response \<times> state" where
  "handle (PostDisaster userId b) st = post_disaster userId b st"
| "handle (PutDisaster userId i b) st = put_disaster userId i b st"
| "handle (DeleteDisaster userId i) st = delete_disaster userId i st"
| "handle (PostReport userId disasterId b) st = post_report userId disasterId b st"
| "handle (PostResource userId disasterId b) st = post_resource userId disasterId b st"
| "handle (VerifyImage userId disasterId reportId imageUrl) st =
     verify_image userId disasterId reportId imageUrl st"
| "handle (PostGeocode userId b) st = post_geocode userId b st"

section \<open>Notions used by the properties\<close>

text \<open>The three record tables agree.\<close>

definition same_records :: "state \<Rightarrow> state \<Rightarrow> bool" where
  "same_records s t \<longleftrightarrow>
     disasters s = disasters t \<and> reports s = reports t \<and> resources s = resources t"

text \<open>The routes answer a mutation they carried out with 200 or 201.\<close>

definition succeeded :: "response \<Rightarrow> bool" where
  "succeeded r \<longleftrightarrow> status r = 200 \<or> status r = 201"

text \<open>
  The store holds what an event announces: the record of its payload is in its table,
  or, for a deletion, no disaster has the id any more.
\<close>

fun applied :: "event \<Rightarrow> state \<Rightarrow> bool" where
  "applied (Emit n (DisasterPayload t (Some d))) st = (d \<in> set (disasters st))"
| "applied (Emit n (DisasterPayload t None)) st = False"
| "applied (Emit n (DisasterDeletedPayload t i)) st = (i \<notin> d_id ` set (disasters st))"
| "applied (Emit n (ReportCreatedPayload i r)) st = (r \<in> set (reports st))"
| "applied (Emit n (ResourcePayload t i r)) st = (r \<in> set (resources st))"
| "applied (Emit n (ReportPayload t r)) st = (r \<in> set (reports st))"

text \<open>
  Every cache entry under an image-verification key holds what the mock answers for
  that URL: so it is on a cache that only \<open>verifyImage\<close> has written such keys to.
\<close>

definition sound_images :: "(string \<rightharpoonup> cache_row) \<Rightarrow> bool" where
  "sound_images c \<longleftrightarrow>
     (\<forall>imageUrl row. c (image_cache_key imageUrl) = Some row \<longrightarrow>
        cache_value row = mock_verify_image imageUrl)"

text \<open>
  A step that leaves the record tables, the emitted events, the Socket.IO server and the
  id counter alone, and keeps the image-verification entries of the cache sound.
\<close>

definition quiet :: "state \<Rightarrow> state \<Rightarrow> bool" where
  "quiet s t \<longleftrightarrow>
     same_records s t \<and> emitted s = emitted t \<and> io_initialized s = io_initialized t \<and>
     next_uuid s = next_uuid t \<and> (sound_images (cache s) \<longrightarrow> sound_images (cache t))"

text \<open>The entries of an audit trail; a trail that is not an array has none.\<close>

definition entries :: "jsonb_trail \<Rightarrow> audit_entry list" where
  "entries t = (case t of TrailArray es \<Rightarrow> es | _ \<Rightarrow> [])"

text \<open>The audit trails of the store, by disaster id, in table order.\<close>

definition trails :: "state \<Rightarrow> (nat \<times> audit_entry list) list" where
  "trails st = map (\<lambda>d. (d_id d, entries (d_audit_trail d))) (disasters st)"

text \<open>
  Two inputs that the whitespace replacement cannot tell apart: of equal length, and at
  each position the same character, or two characters that are whitespace or underscore.
\<close>

definition blank :: "char \<Rightarrow> bool" where
  "blank c \<longleftrightarrow> is_whitespace c \<or> c = CHR ''_''"

definition alike :: "string \<Rightarrow> string \<Rightarrow> bool" where
  "alike a b = list_all2 (\<lambda>x y. x = y \<or> (blank x \<and> blank y)) a b"

section \<open>Example states\<close>

text \<open>A store with one cache entry, read at time 50, which expires at time 100.\<close>

definition cache_demo :: state where
  "cache_demo =
     \<lparr>cache = [''k'' \<mapsto> \<lparr>cache_value = JStr ''v'', expires_at = 100\<rparr>],
      disasters = [], reports = [], resources = [], emitted = [], io_initialized = True,
      clock = 50, faults = [], next_uuid = 0\<rparr>"

text \<open>
  A store with one disaster, created by \<^verbatim>\<open>netrunnerX\<close>, and one report on it that an
  earlier verification has marked verified.
\<close>

definition flood :: disaster where
  "flood =
     \<lparr>d_id = 0, d_title = ''NYC Flood'', d_location_name = ''Manhattan'',
      d_location = None, d_description = ''Heavy flooding'', d_tags = [''flood''],
      d_owner_id = ''netrunnerX'', d_created_at = 1000,
      d_audit_trail = TrailArray [\<lparr>entry_action = ''create'', entry_user_id = ''netrunnerX'',
                                    entry_timestamp = 1000\<rparr>]\<rparr>"

definition verified_report :: report where
  "verified_report =
     \<lparr>r_id = 1, r_disaster_id = 0, r_user_id = ''citizen1'', r_content = ''Need food'',
      r_image_url = Some ''pic.png'', r_verification_status = ''verified'',
      r_created_at = 1500\<rparr>"

definition flood_state :: state where
  "flood_state =
     \<lparr>cache = Map.empty, disasters = [flood], reports = [verified_report], resources = [],
      emitted = [], io_initialized = True, clock = 2000, faults = [], next_uuid = 2\<rparr>"

definition help_body :: report_body where
  "help_body = \<lparr>rb_content = Some ''Water rising'', rb_image_url = None\<rparr>"

text \<open>
  Four shelters of disaster 0 on the equator, at longitudes 5, 1, 3 and 20, created in
  that order, and a query around the origin. The example parses only the numerals it
  needs.
\<close>

definition demo_parseFloat :: "string \<Rightarrow> rat option" where
  "demo_parseFloat s = (if s = ''0'' then Some 0 else None)"

definition demo_parseInt :: "string \<Rightarrow> int option" where
  "demo_parseInt s = (if s = ''10'' then Some 10 else if s = ''0'' then Some 0 else None)"

definition shelter :: "nat \<Rightarrow> rat \<Rightarrow> time \<Rightarrow> resource" where
  "shelter i lon t =
     \<lparr>res_id = i, res_disaster_id = 0, res_name = ''Shelter'',
      res_location_name = ''Manhattan, NYC'', res_location = Some (Point (JNum lon) (JNum 0)),
      res_type = ''shelter'', res_created_at = t\<rparr>"

definition resources_demo :: state where
  "resources_demo =
     \<lparr>cache = Map.empty, disasters = [flood], reports = [],
      resources = [shelter 1 5 100, shelter 2 1 200, shelter 3 3 300, shelter 4 20 400],
      emitted = [], io_initialized = True, clock = 1000, faults = [], next_uuid = 5\<rparr>"

definition near_origin :: resources_query where
  "near_origin = \<lparr>q_lat = Some ''0'', q_lon = Some ''0'', q_radius = Some ''10'', q_type = None\<rparr>"

text \<open>
  An update of the description only; and a resource whose location name is a name of
  \<^verbatim>\<open>Object.prototype\<close>, not of the mock's table.
\<close>

definition describe_body :: disaster_body where
  "describe_body =
     \<lparr>b_title = None, b_location_name = None, b_description = Some ''Water receding'',
      b_tags = None, b_other_keys = False\<rparr>"

definition proto_body :: resource_body where
  "proto_body =
     \<lparr>sb_name = Some ''Shelter'', sb_location_name = Some ''__proto__'',
      sb_type = Some ''shelter''\<rparr>"

section \<open>The cache\<close>

lemmas cache_defs = getCache_def getCache_try_def cache_select_single_def cache_delete_def
  setCache_def setCache_try_def cache_upsert_def store_call_def next_fault_def

lemmas all_splits = list.splits fault.splits prod.splits db_reply.splits outcome.splits
  option.splits if_splits

text \<open>
  Claim C4. For a key with a stored row: a \<open>getCache\<close> whose current time is at or past
  the row's \<open>expires_at\<close> returns null, whatever the store does; a \<open>getCache\<close> whose
  current time is strictly before \<open>expires_at\<close>, when the store answers the select,
  returns the stored value unchanged and leaves the cache as it is. Round trip: after a
  \<open>setCache\<close> that the store accepts, a \<open>getCache\<close> at time \<open>t\<close> returns the value
  set when \<open>t\<close> is before the expiry (the time of the set plus the time to live), and
  null from the expiry on.
\<close>

theorem getCache_expiry:
  "(cache st key = Some row \<longrightarrow>
     (expires_at row \<le> clock st \<longrightarrow> fst (getCache key st) = JNull) \<and>
     (clock st < expires_at row \<and> fst (next_fault st) = NoFault \<longrightarrow>
        fst (getCache key st) = cache_value row \<and> cache (snd (getCache key st)) = cache st)) \<and>
   (fst (next_fault st) = NoFault \<and> storable v \<and> valid_date (clock st + ttl * 1000) \<and>
    fst (next_fault ((setCache key v ttl st)\<lparr>clock := t\<rparr>)) = NoFault \<longrightarrow>
      fst (getCache key ((setCache key v ttl st)\<lparr>clock := t\<rparr>))
        = (if t < clock st + ttl * 1000 then v else JNull))"
proof (intro conjI impI)
  assume "cache st key = Some row" and "expires_at row \<le> clock st"
  then show "fst (getCache key st) = JNull"
    by (auto simp: cache_defs split: all_splits)
next
  assume h: "cache st key = Some row"
    "clock st < expires_at row \<and> fst (next_fault st) = NoFault"
  then show "fst (getCache key st) = cache_value row"
    by (auto simp: cache_defs split: all_splits)
  from h show "cache (snd (getCache key st)) = cache st"
    by (auto simp: cache_defs split: all_splits)
next
  assume "fst (next_fault st) = NoFault \<and> storable v \<and> valid_date (clock st + ttl * 1000) \<and>
    fst (next_fault ((setCache key v ttl st)\<lparr>clock := t\<rparr>)) = NoFault"
  then show "fst (getCache key ((setCache key v ttl st)\<lparr>clock := t\<rparr>))
        = (if t < clock st + ttl * 1000 then v else JNull)"
    by (auto simp: cache_defs split: all_splits)
qed

theorem getCache_expiry_witness:
  "cache cache_demo ''k'' = Some \<lparr>cache_value = JStr ''v'', expires_at = 100\<rparr> \<and>
   fst (getCache ''k'' cache_demo) = JStr ''v'' \<and>
   fst (getCache ''k'' (cache_demo\<lparr>clock := 100\<rparr>)) = JNull \<and>
   fst (getCache ''n'' ((setCache ''n'' (JNum 7) 1 cache_demo)\<lparr>clock := 1049\<rparr>)) = JNum 7 \<and>
   fst (getCache ''n'' ((setCache ''n'' (JNum 7) 1 cache_demo)\<lparr>clock := 1050\<rparr>)) = JNull"
  using getCache_expiry [of cache_demo "''k''" "\<lparr>cache_value = JStr ''v'', expires_at = 100\<rparr>"]
    getCache_expiry [of "cache_demo\<lparr>clock := 100\<rparr>" "''k''"
      "\<lparr>cache_value = JStr ''v'', expires_at = 100\<rparr>"]
    getCache_expiry [of cache_demo "''n''" _ "JNum 7" 1 1049]
    getCache_expiry [of cache_demo "''n''" _ "JNum 7" 1 1050]
  by (simp add: cache_demo_def cache_defs storable_def valid_date_def)

text \<open>
  Claim C8. After \<open>setCache key va\<close>, then (at time \<open>tb\<close>) \<open>setCache key vb\<close> which the
  store accepts, the cache holds for the key exactly the second entry, and a \<open>getCache\<close>
  at a time \<open>t\<close> before its expiry returns \<open>vb\<close>: nothing of \<open>va\<close> is left.
\<close>

theorem setCache_overwrites:
  assumes "sa = (setCache key va ttla st)\<lparr>clock := tb\<rparr>"
    and "sb = (setCache key vb ttlb sa)\<lparr>clock := t\<rparr>"
    and "fst (next_fault sa) = NoFault" and "fst (next_fault sb) = NoFault"
    and "storable vb" and "valid_date (tb + ttlb * 1000)"
  shows "cache sb key = Some \<lparr>cache_value = vb, expires_at = tb + ttlb * 1000\<rparr> \<and>
         fst (getCache key sb) = (if t < tb + ttlb * 1000 then vb else JNull)"
  using assms by (auto simp: cache_defs split: all_splits)

theorem setCache_overwrites_witness:
  "fst (getCache ''k''
     ((setCache ''k'' (JNum 2) 10
        ((setCache ''k'' (JNum 1) 3600 cache_demo)\<lparr>clock := 60\<rparr>))\<lparr>clock := 70\<rparr>)) = JNum 2 \<and>
   fst (getCache ''k''
     ((setCache ''k'' (JNum 2) 10
        ((setCache ''k'' (JNum 1) 3600 cache_demo)\<lparr>clock := 60\<rparr>))\<lparr>clock := 10060\<rparr>)) = JNull"
  using setCache_overwrites [where st = cache_demo and key = "''k''" and va = "JNum 1"
      and ttla = 3600 and tb = 60 and vb = "JNum 2" and ttlb = 10 and t = 70, OF refl refl]
    setCache_overwrites [where st = cache_demo and key = "''k''" and va = "JNum 1"
      and ttla = 3600 and tb = 60 and vb = "JNum 2" and ttlb = 10 and t = 10060, OF refl refl]
  by (simp add: cache_demo_def cache_defs storable_def valid_date_def)

text \<open>
  Claim C10. \<open>getCache\<close> and \<open>setCache\<close> absorb every failure of the store: an
  exception in the \<^verbatim>\<open>try\<close> block of \<open>getCache\<close> becomes null; when the store's call
  faults (an error object or a throw), \<open>getCache\<close> returns null and \<open>setCache\<close> stores
  nothing; an exception in \<open>setCache\<close> leaves the cache as it was; and \<open>getCache\<close>
  returns something other than null only when the store answered and the row has not
  expired. Neither function has an exception among its results.
\<close>

theorem cache_failures_absorbed:
  "(fst (getCache_try key st) = Raised \<longrightarrow> fst (getCache key st) = JNull) \<and>
   (fst (next_fault st) \<noteq> NoFault \<longrightarrow>
      fst (getCache key st) = JNull \<and> cache (snd (getCache key st)) = cache st \<and>
      cache (setCache key v ttl st) = cache st) \<and>
   (fst (setCache_try key v ttl st) = Raised \<longrightarrow> cache (setCache key v ttl st) = cache st) \<and>
   (fst (getCache key st) \<noteq> JNull \<longrightarrow>
      fst (next_fault st) = NoFault \<and>
      (\<exists>row. cache st key = Some row \<and> clock st < expires_at row \<and>
             fst (getCache key st) = cache_value row))"
proof (intro conjI impI)
  assume "fst (getCache_try key st) = Raised"
  then show "fst (getCache key st) = JNull"
    by (cases "getCache_try key st") (auto simp: getCache_def split: outcome.splits)
next
  assume f: "fst (next_fault st) \<noteq> NoFault"
  then show "fst (getCache key st) = JNull"
    by (auto simp: cache_defs split: all_splits)
  from f show "cache (snd (getCache key st)) = cache st"
    by (auto simp: cache_defs split: all_splits)
  from f show "cache (setCache key v ttl st) = cache st"
    by (auto simp: cache_defs Let_def split: all_splits)
next
  assume "fst (setCache_try key v ttl st) = Raised"
  then show "cache (setCache key v ttl st) = cache st"
    by (auto simp: cache_defs Let_def split: all_splits)
next
  assume n: "fst (getCache key st) \<noteq> JNull"
  then show "fst (next_fault st) = NoFault"
    by (auto simp: cache_defs split: all_splits)
  from n show "\<exists>row. cache st key = Some row \<and> clock st < expires_at row \<and>
             fst (getCache key st) = cache_value row"
    by (auto simp: cache_defs split: all_splits)
qed

theorem cache_failures_absorbed_witness:
  "fst (getCache ''k'' (cache_demo\<lparr>faults := [Throws]\<rparr>)) = JNull \<and>
   fst (getCache ''k'' (cache_demo\<lparr>faults := [DbError ''500'']\<rparr>)) = JNull \<and>
   cache (setCache ''k'' (JNum 1) 3600 (cache_demo\<lparr>faults := [Throws]\<rparr>)) ''k''
     = Some \<lparr>cache_value = JStr ''v'', expires_at = 100\<rparr> \<and>
   fst (getCache ''k'' (cache_demo\<lparr>clock := 200, faults := [NoFault, Throws]\<rparr>)) = JNull \<and>
   fst (getCache ''k'' cache_demo) = JStr ''v''"
  using cache_failures_absorbed [of "''k''" "cache_demo\<lparr>faults := [Throws]\<rparr>" "JNum 1" 3600]
    cache_failures_absorbed [of "''k''" "cache_demo\<lparr>faults := [DbError ''500'']\<rparr>" "JNum 1" 3600]
    cache_failures_absorbed [of "''k''" "cache_demo\<lparr>clock := 200, faults := [NoFault, Throws]\<rparr>"
      "JNum 1" 3600]
    cache_failures_absorbed [of "''k''" cache_demo "JNum 1" 3600]
  by (simp add: cache_demo_def cache_defs)

section \<open>The cache keys\<close>

lemma replace_whitespace_eq_iff:
  "replace_whitespace a = replace_whitespace b \<longleftrightarrow> alike a b"
proof (induction a arbitrary: b)
  case Nil
  then show ?case by (auto simp: replace_whitespace_def alike_def)
next
  case (Cons x xs)
  show ?case
  proof (cases b)
    case Nil
    then show ?thesis by (simp add: replace_whitespace_def alike_def)
  next
    case (Cons y ys)
    have "replace_whitespace xs = replace_whitespace ys \<longleftrightarrow> alike xs ys"
      by (rule Cons.IH)
    then show ?thesis using Cons
      by (auto simp: replace_whitespace_def alike_def blank_def)
  qed
qed

text \<open>
  Claim C7, as amended. The cache key of a provider operation is the operation's prefix
  followed by the input in which every whitespace character is replaced by one
  underscore (location extraction, geocoding, the social-media query) or by the input as
  it is (image verification, official updates). Case is kept and runs of whitespace are
  not collapsed: two inputs yield the same key exactly when they have the same length
  and agree at every position up to whitespace characters and underscores; for the two
  operations that do not normalise, exactly when they are equal.
\<close>

theorem cache_keys_characterised:
  "(location_cache_key a = location_cache_key b \<longleftrightarrow> alike a b) \<and>
   (geocode_cache_key a = geocode_cache_key b \<longleftrightarrow> alike a b) \<and>
   (social_media_cache_key d a = social_media_cache_key d b \<longleftrightarrow> alike a b) \<and>
   (image_cache_key a = image_cache_key b \<longleftrightarrow> a = b) \<and>
   (official_updates_cache_key a = official_updates_cache_key b \<longleftrightarrow> a = b)"
  by (simp add: location_cache_key_def geocode_cache_key_def social_media_cache_key_def
      image_cache_key_def official_updates_cache_key_def replace_whitespace_eq_iff)

theorem cache_keys_characterised_witness:
  "geocode_cache_key ''Lower East'' = geocode_cache_key ''Lower_East'' \<and>
   geocode_cache_key ''Lower East'' = ''geocode_Lower_East'' \<and>
   location_cache_key ''NYC Flood'' \<noteq> location_cache_key ''nyc flood''"
  using cache_keys_characterised [of "''Lower East''" "''Lower_East''" "''x''"]
     cache_keys_characterised [of "''NYC Flood''" "''nyc flood''" "''x''"]
  by (simp add: alike_def blank_def is_whitespace_def geocode_cache_key_def replace_whitespace_def)

text \<open>
  The claim as stated fails: two location names that differ only in a run of whitespace
  (two spaces for one) get different geocoding keys.
\<close>

theorem cache_keys_counterexample:
  "geocode_cache_key ''Lower  East Side'' \<noteq> geocode_cache_key ''Lower East Side''"
  by (simp add: geocode_cache_key_def replace_whitespace_def is_whitespace_def)

section \<open>The radius query\<close>

lemma next_fault_resources [simp]: "resources (snd (next_fault st)) = resources st"
  by (auto simp: next_fault_def split: list.splits)

text \<open>
  Claim C2. For a disaster, a centre that parses and a radius \<open>R\<close>, the claim expects of
  the radius query, when \<open>R > 0\<close>, the list of the disaster's resources within \<open>R\<close> of
  the centre, sorted by distance. The route does not return it: when \<open>R > 0\<close> the call
  of \<^verbatim>\<open>rpc\<close> on the query builder throws, and the route answers 500 with the message
  of its \<^verbatim>\<open>catch\<close> block and no list, whatever the store holds, its state unchanged
  and no request of the store's script consumed; when \<open>R \<le> 0\<close> it answers 400.
\<close>

theorem get_resources_radius_throws:
  assumes "truthy_param (q_lat q) = Some lat" and "truthy_param (q_lon q) = Some lon"
    and "parseFloat lat = Some parsedLat" and "parseFloat lon = Some parsedLon"
    and "(case q_radius q of None \<Rightarrow> Some 10000 | Some radius \<Rightarrow> parseInt radius) = Some R"
  shows "get_resources parseFloat parseInt disasterId q st =
     (if R \<le> 0 then
        (reply 400 (Message ''Invalid latitude, longitude, or radius provided.''), st)
      else (reply 500 (Message ''Internal server error while fetching resources.''), st))"
  using assms by (simp add: get_resources_def builder_rpc_def)

text \<open>
  The query around the origin with radius 10, on the store of four shelters of which
  three lie within 10 of the origin: the answer is 500 and carries no list.
\<close>

theorem get_resources_radius_throws_witness:
  "get_resources demo_parseFloat demo_parseInt 0 near_origin resources_demo =
     (reply 500 (Message ''Internal server error while fetching resources.''), resources_demo) \<and>
   (\<forall>rows. content (fst (get_resources demo_parseFloat demo_parseInt 0 near_origin
                               resources_demo)) \<noteq> ResourceList rows) \<and>
   resources resources_demo =
     [shelter 1 5 100, shelter 2 1 200, shelter 3 3 300, shelter 4 20 400]"
  using get_resources_radius_throws [where q = near_origin
      and lat = "''0''" and lon = "''0''" and parseFloat = demo_parseFloat and parsedLat = 0
      and parsedLon = 0 and parseInt = demo_parseInt and R = 10 and st = resources_demo
      and disasterId = 0]
  by (simp add: near_origin_def truthy_param_def demo_parseFloat_def demo_parseInt_def
      resources_demo_def reply_def)

section \<open>What the services leave alone\<close>

lemmas route_simps = store_call_def next_fault_def emit_def reply_def succeeded_def Let_def

lemma quiet_refl [simp]: "quiet s s"
  by (simp add: quiet_def same_records_def)

lemma quiet_trans: "quiet s t \<Longrightarrow> quiet t u \<Longrightarrow> quiet s u"
  by (simp add: quiet_def same_records_def)

lemma sound_images_delete: "sound_images c \<Longrightarrow> sound_images (c(k := None))"
  by (simp add: sound_images_def)

lemma sound_images_other:
  "sound_images c \<Longrightarrow> (\<And>u. k \<noteq> image_cache_key u) \<Longrightarrow> sound_images (c(k \<mapsto> row))"
  unfolding sound_images_def by (metis fun_upd_other)

lemma sound_images_image:
  "sound_images c \<Longrightarrow> cache_value row = mock_verify_image u \<Longrightarrow>
     sound_images (c(image_cache_key u \<mapsto> row))"
  by (auto simp: sound_images_def image_cache_key_def)

lemma location_key_not_image: "location_cache_key d \<noteq> image_cache_key u"
  by (simp add: location_cache_key_def image_cache_key_def)

lemma geocode_key_not_image: "geocode_cache_key d \<noteq> image_cache_key u"
  by (simp add: geocode_cache_key_def image_cache_key_def)

lemma getCache_quiet: "getCache key st = (v, s) \<Longrightarrow> quiet st s \<and> clock s = clock st"
  by (clarsimp simp: cache_defs quiet_def same_records_def sound_images_delete split: all_splits)+

lemma setCache_frame:
  "same_records st (setCache key v ttl st) \<and> emitted (setCache key v ttl st) = emitted st \<and>
   io_initialized (setCache key v ttl st) = io_initialized st \<and>
   next_uuid (setCache key v ttl st) = next_uuid st \<and> clock (setCache key v ttl st) = clock st \<and>
   (cache (setCache key v ttl st) = cache st \<or>
    cache (setCache key v ttl st)
      = (cache st)(key \<mapsto> \<lparr>cache_value = v, expires_at = clock st + ttl * 1000\<rparr>))"
  by (clarsimp simp: cache_defs same_records_def Let_def split: all_splits)+

lemma setCache_quiet_other:
  "(\<And>u. key \<noteq> image_cache_key u) \<Longrightarrow> quiet st (setCache key v ttl st)"
  using setCache_frame [of st key v ttl] sound_images_other [of "cache st" key]
  by (auto simp: quiet_def)

lemma setCache_quiet_image:
  "quiet st (setCache (image_cache_key u) (mock_verify_image u) ttl st)"
  using setCache_frame [of st "image_cache_key u" "mock_verify_image u" ttl]
    sound_images_image [of "cache st"
      "\<lparr>cache_value = mock_verify_image u, expires_at = clock st + ttl * 1000\<rparr>" u]
  by (auto simp: quiet_def)

lemma sleep_quiet: "quiet st (sleep ms st)"
  by (simp add: sleep_def quiet_def same_records_def)

lemma geocodeLocation_quiet: "geocodeLocation l st = (c, s) \<Longrightarrow> quiet st s"
proof -
  assume h: "geocodeLocation l st = (c, s)"
  obtain v s1 where g: "getCache (geocode_cache_key l) st = (v, s1)" by force
  have q1: "quiet st s1" using getCache_quiet [OF g] by simp
  have q2: "quiet s1 (sleep 300 s1)" by (rule sleep_quiet)
  have q3: "quiet (sleep 300 s1)
      (setCache (geocode_cache_key l) (mock_geocode l) CACHE_TTL_SECONDS (sleep 300 s1))"
    by (rule setCache_quiet_other) (rule geocode_key_not_image)
  from h g show ?thesis
    using q1 quiet_trans [OF q1 quiet_trans [OF q2 q3]]
    by (auto simp: geocodeLocation_def Let_def split: if_splits)
qed

lemma extractLocation_quiet: "extractLocationFromDescription d st = (c, s) \<Longrightarrow> quiet st s"
proof -
  assume h: "extractLocationFromDescription d st = (c, s)"
  obtain v s1 where g: "getCache (location_cache_key d) st = (v, s1)" by force
  have q1: "quiet st s1" using getCache_quiet [OF g] by simp
  have q2: "quiet s1 (sleep 500 s1)" by (rule sleep_quiet)
  have q3: "quiet (sleep 500 s1)
      (setCache (location_cache_key d) (JStr (mock_extract_location d)) CACHE_TTL_SECONDS
         (sleep 500 s1))"
    by (rule setCache_quiet_other) (rule location_key_not_image)
  from h g show ?thesis
    using q1 quiet_trans [OF q1 quiet_trans [OF q2 q3]]
    by (auto simp: extractLocationFromDescription_def Let_def split: if_splits)
qed

lemma verifyImage_quiet: "verifyImage u st = (c, s) \<Longrightarrow> quiet st s"
proof -
  assume h: "verifyImage u st = (c, s)"
  obtain v s1 where g: "getCache (image_cache_key u) st = (v, s1)" by force
  have q1: "quiet st s1" using getCache_quiet [OF g] by simp
  have q2: "quiet s1 (sleep 800 s1)" by (rule sleep_quiet)
  have q3: "quiet (sleep 800 s1)
      (setCache (image_cache_key u) (mock_verify_image u) CACHE_TTL_SECONDS (sleep 800 s1))"
    by (rule setCache_quiet_image)
  from h g show ?thesis
    using q1 quiet_trans [OF q1 quiet_trans [OF q2 q3]]
    by (auto simp: verifyImage_def Let_def split: if_splits)
qed

section \<open>The effect of each route\<close>

lemma find_Some_id: "find (\<lambda>u. u_id u = uid) us = Some u \<Longrightarrow> u_id u = uid"
  by (induction us) (auto split: if_splits)

lemma authenticate_Inr: "authenticate userId = Inr u \<Longrightarrow> userId = Some (u_id u)"
  by (auto simp: authenticate_def split: option.splits if_splits dest: find_Some_id)

lemma guarded_cases:
  assumes "guarded roles userId handler st = (resp, s)"
  obtains (denied) "\<not> succeeded resp" "s = st"
  | (run) u where "authenticate userId = Inr u" "authorize roles u" "handler u st = (resp, s)"
  using assms
  by (auto simp: guarded_def authenticate_def reply_def succeeded_def
      split: sum.splits option.splits if_splits)

lemma filter_map_hit:
  "(\<And>x. P x \<Longrightarrow> P (f x)) \<Longrightarrow>
     filter P (map (\<lambda>x. if P x then f x else x) xs) = map f (filter P xs)"
  by (induction xs) auto

lemma map_no_hit:
  "filter P xs = [] \<Longrightarrow> map (\<lambda>x. if P x then f x else x) xs = xs"
  by (induction xs) (auto split: if_splits)

lemma updatePayload_id [simp]: "d_id (updatePayload b t d) = d_id d"
  by (simp add: updatePayload_def)

lemma post_disaster_effect:
  assumes "post_disaster userId b st = (resp, s)"
  shows "reports s = reports st \<and> resources s = resources st \<and> cache s = cache st \<and>
    (if succeeded resp then
       \<exists>u title location_name description tags row.
         authenticate userId = Inr u \<and>
         row = \<lparr>d_id = next_uuid st, d_title = title, d_location_name = location_name,
                 d_location = None, d_description = description, d_tags = tags,
                 d_owner_id = u_id u, d_created_at = clock st,
                 d_audit_trail = TrailArray [\<lparr>entry_action = ''create'', entry_user_id = u_id u,
                                               entry_timestamp = clock st\<rparr>]\<rparr> \<and>
         disasters s = disasters st @ [row] \<and>
         emitted s = emitted st @ [Emit ''disaster_updated'' (DisasterPayload ''created'' (Some row))] \<and>
         status resp = 201
     else emitted s = emitted st \<and> (io_initialized st \<longrightarrow> disasters s = disasters st))"
  using assms unfolding post_disaster_def
proof (cases rule: guarded_cases)
  case denied
  then show ?thesis by simp
next
  case (run u)
  then show ?thesis
    by (clarsimp simp: post_disaster_handler_def disasters_insert_def addAuditEntry_def route_simps
        split: all_splits)+
qed

lemma put_disaster_effect:
  assumes "put_disaster userId i b st = (resp, s)"
  shows "reports s = reports st \<and> resources s = resources st \<and> cache s = cache st \<and>
    (if succeeded resp then
       \<exists>u d trail.
         authenticate userId = Inr u \<and> filter (\<lambda>d. d_id d = i) (disasters st) = [d] \<and>
         trail = addAuditEntry (or_empty (d_audit_trail d)) ''update'' (u_id u) (clock st) \<and>
         disasters s = map (\<lambda>x. if d_id x = i then updatePayload b trail x else x) (disasters st) \<and>
         emitted s = emitted st @
           [Emit ''disaster_updated'' (DisasterPayload ''updated'' (Some (updatePayload b trail d)))] \<and>
         status resp = 200
     else emitted s = emitted st \<and> (io_initialized st \<longrightarrow> disasters s = disasters st))"
  using assms unfolding put_disaster_def
proof (cases rule: guarded_cases)
  case denied
  then show ?thesis by simp
next
  case (run u)
  have fm: "\<And>t xs. filter (\<lambda>d. d_id d = i) (map (\<lambda>x. if d_id x = i then updatePayload b t x else x) xs)
       = map (updatePayload b t) (filter (\<lambda>d. d_id d = i) xs)"
    by (rule filter_map_hit) simp
  from run show ?thesis
    by (clarsimp simp: put_disaster_handler_def disasters_select_single_def
        disasters_update_by_id_def first_def fm route_simps split: all_splits)+
qed

lemma delete_disaster_effect:
  assumes "delete_disaster userId i st = (resp, s)"
  shows "cache s = cache st \<and>
    (reports s = reports st \<or> reports s = filter (\<lambda>r. r_disaster_id r \<noteq> i) (reports st)) \<and>
    (if succeeded resp then
       disasters s = filter (\<lambda>d. d_id d \<noteq> i) (disasters st) \<and>
       reports s = filter (\<lambda>r. r_disaster_id r \<noteq> i) (reports st) \<and>
       resources s = filter (\<lambda>r. res_disaster_id r \<noteq> i) (resources st) \<and>
       emitted s = emitted st @ [Emit ''disaster_updated'' (DisasterDeletedPayload ''deleted'' i)] \<and>
       status resp = 200
     else emitted s = emitted st \<and> (io_initialized st \<longrightarrow> same_records st s))"
  using assms unfolding delete_disaster_def
proof (cases rule: guarded_cases)
  case denied
  then show ?thesis by (simp add: same_records_def)
next
  case (run u)
  then show ?thesis
    by (clarsimp simp: delete_disaster_handler_def disasters_select_single_def disasters_delete_def
        same_records_def route_simps split: all_splits)+
qed

lemma post_report_effect:
  assumes "post_report userId disasterId b st = (resp, s)"
  shows "disasters s = disasters st \<and> resources s = resources st \<and> cache s = cache st \<and>
    (reports s = reports st \<or>
     (\<exists>row. r_verification_status row = ''pending'' \<and> reports s = reports st @ [row])) \<and>
    (if succeeded resp then
       \<exists>u c row.
         authenticate userId = Inr u \<and> disaster_exists disasterId st \<and>
         row = \<lparr>r_id = next_uuid st, r_disaster_id = disasterId, r_user_id = u_id u,
                 r_content = c, r_image_url = rb_image_url b,
                 r_verification_status = ''pending'', r_created_at = clock st\<rparr> \<and>
         reports s = reports st @ [row] \<and>
         emitted s = emitted st @ [Emit ''report_created'' (ReportCreatedPayload disasterId row)] \<and>
         status resp = 201
     else emitted s = emitted st \<and> (io_initialized st \<longrightarrow> reports s = reports st))"
  using assms unfolding post_report_def
proof (cases rule: guarded_cases)
  case denied
  then show ?thesis by simp
next
  case (run u)
  then show ?thesis
    by (clarsimp simp: post_report_handler_def reports_insert_def disaster_exists_def route_simps
        split: all_splits)+
qed

lemmas quiet_simps = quiet_def same_records_def

lemma post_resource_effect:
  assumes "post_resource userId disasterId b st = (resp, s)"
  shows "disasters s = disasters st \<and> reports s = reports st \<and>
    (sound_images (cache st) \<longrightarrow> sound_images (cache s)) \<and>
    (resources s = resources st \<or>
     (\<exists>l c s1 row. sb_location_name b = Some l \<and> geocodeLocation l st = (c, s1) \<and>
        usable_point c \<and> res_location row = Some (point_of c) \<and>
        res_location_name row = l \<and> resources s = resources st @ [row])) \<and>
    (if succeeded resp then
       \<exists>u name l type c s1 row.
         authenticate userId = Inr u \<and> sb_location_name b = Some l \<and> l \<noteq> [] \<and>
         geocodeLocation l st = (c, s1) \<and> usable_point c \<and> disaster_exists disasterId st \<and>
         row = \<lparr>res_id = next_uuid st, res_disaster_id = disasterId, res_name = name,
                 res_location_name = l, res_location = Some (point_of c),
                 res_type = type, res_created_at = clock s1\<rparr> \<and>
         resources s = resources st @ [row] \<and>
         emitted s = emitted st @
           [Emit ''resources_updated'' (ResourcePayload ''created'' disasterId row)] \<and>
         status resp = 201
     else emitted s = emitted st \<and> (io_initialized st \<longrightarrow> resources s = resources st))"
  using assms unfolding post_resource_def
proof (cases rule: guarded_cases)
  case denied
  then show ?thesis by simp
next
  case (run u)
  show ?thesis
  proof (cases "\<exists>name l type. sb_name b = Some name \<and> sb_location_name b = Some l \<and>
      sb_type b = Some type \<and> name \<noteq> [] \<and> l \<noteq> [] \<and> type \<noteq> []")
    case False
    with run show ?thesis
      by (clarsimp simp: post_resource_handler_def reply_def succeeded_def split: all_splits)+
  next
    case True
    then obtain name l type where f: "sb_name b = Some name" "sb_location_name b = Some l"
      "sb_type b = Some type" "name \<noteq> []" "l \<noteq> []" "type \<noteq> []" by blast
    obtain c s1 where g: "geocodeLocation l st = (c, s1)" by force
    have q: "quiet st s1" by (rule geocodeLocation_quiet [OF g])
    from run f g q show ?thesis
      by (clarsimp simp: post_resource_handler_def resources_insert_def disaster_exists_def
          quiet_simps route_simps split: all_splits)+
  qed
qed

lemma next_fault_faults: "next_fault st = (f, s) \<Longrightarrow> \<exists>fs. s = st\<lparr>faults := fs\<rparr>"
  by (cases st) (auto simp: next_fault_def split: list.splits)

lemma store_call_elim:
  assumes "store_call st run = (r, s)"
  shows "\<exists>fs. (r = Thrown \<and> s = st\<lparr>faults := fs\<rparr>) \<or> (\<exists>c. r = Failed c \<and> s = st\<lparr>faults := fs\<rparr>)
           \<or> run (st\<lparr>faults := fs\<rparr>) = (r, s)"
proof (cases "next_fault st")
  case (Pair f s1)
  then obtain fs where "s1 = st\<lparr>faults := fs\<rparr>" using next_fault_faults by blast
  with Pair assms show ?thesis
    by (cases f) (auto simp: store_call_def)
qed

lemma reports_update_status_cases:
  assumes "reports_update_status reportId disasterId new_status st = (r, s)"
  shows "\<exists>fs. ((r = Thrown \<or> (\<exists>c. r = Failed c)) \<and> s = st\<lparr>faults := fs\<rparr>) \<or>
     (\<exists>sv. new_status = Some (JStr sv) \<and>
        r = Ok (map (\<lambda>r. r\<lparr>r_verification_status := sv\<rparr>)
                 (filter (\<lambda>r. r_id r = reportId \<and> r_disaster_id r = disasterId) (reports st))) \<and>
        s = st\<lparr>faults := fs,
               reports := map (\<lambda>r. if r_id r = reportId \<and> r_disaster_id r = disasterId
                                     then r\<lparr>r_verification_status := sv\<rparr> else r) (reports st)\<rparr>)"
proof -
  let ?hit = "\<lambda>r. r_id r = reportId \<and> r_disaster_id r = disasterId"
  have fm: "\<And>sv xs. filter ?hit (map (\<lambda>r. if ?hit r then r\<lparr>r_verification_status := sv\<rparr> else r) xs)
      = map (\<lambda>r. r\<lparr>r_verification_status := sv\<rparr>) (filter ?hit xs)"
    by (rule filter_map_hit) simp
  obtain fs where h: "(r = Thrown \<and> s = st\<lparr>faults := fs\<rparr>) \<or>
      (\<exists>c. r = Failed c \<and> s = st\<lparr>faults := fs\<rparr>) \<or>
      (case new_status of
         Some (JStr sv) \<Rightarrow>
           let hit = (\<lambda>r. r_id r = reportId \<and> r_disaster_id r = disasterId);
               rows = map (\<lambda>r. if hit r then r\<lparr>r_verification_status := sv\<rparr> else r)
                        (reports (st\<lparr>faults := fs\<rparr>))
           in (Ok (filter hit rows), st\<lparr>faults := fs, reports := rows\<rparr>)
       | _ \<Rightarrow> (Failed ''23502'', st\<lparr>faults := fs\<rparr>)) = (r, s)"
    using store_call_elim [OF assms [unfolded reports_update_status_def]] by blast
  show ?thesis
  proof (cases "\<exists>sv. new_status = Some (JStr sv)")
    case True
    then obtain sv where ns: "new_status = Some (JStr sv)" by blast
    from h show ?thesis
      unfolding ns by (intro exI [of _ fs]) (auto simp: Let_def fm)
  next
    case False
    then have "(case new_status of
         Some (JStr sv) \<Rightarrow>
           let hit = (\<lambda>r. r_id r = reportId \<and> r_disaster_id r = disasterId);
               rows = map (\<lambda>r. if hit r then r\<lparr>r_verification_status := sv\<rparr> else r)
                        (reports (st\<lparr>faults := fs\<rparr>))
           in (Ok (filter hit rows), st\<lparr>faults := fs, reports := rows\<rparr>)
       | _ \<Rightarrow> (Failed ''23502'', st\<lparr>faults := fs\<rparr>)) = (Failed ''23502'', st\<lparr>faults := fs\<rparr>)"
      by (simp split: option.splits json.splits)
    with h show ?thesis by (intro exI [of _ fs]) auto
  qed
qed


lemma verify_image_effect:
  assumes "verify_image userId disasterId reportId imageUrl st = (resp, s)"
  shows "disasters s = disasters st \<and> resources s = resources st \<and>
    (sound_images (cache st) \<longrightarrow> sound_images (cache s)) \<and>
    (if succeeded resp then
       \<exists>url vr s1 sv r.
         truthy_param imageUrl = Some url \<and> verifyImage url st = (vr, s1) \<and>
         get_prop vr ''status'' = Some (JStr sv) \<and>
         r \<in> set (reports st) \<and> r_id r = reportId \<and> r_disaster_id r = disasterId \<and>
         reports s = map (\<lambda>r. if r_id r = reportId \<and> r_disaster_id r = disasterId
                               then r\<lparr>r_verification_status := sv\<rparr> else r) (reports st) \<and>
         emitted s = emitted st @
           [Emit ''report_updated''
              (ReportPayload ''verification_status_updated'' (r\<lparr>r_verification_status := sv\<rparr>))] \<and>
         status resp = 200
     else emitted s = emitted st \<and> (io_initialized st \<longrightarrow> reports s = reports st))"
  using assms unfolding verify_image_def
proof (cases rule: guarded_cases)
  case denied
  then show ?thesis by simp
next
  case (run u)
  show ?thesis
  proof (cases "truthy_param imageUrl")
    case None
    with run show ?thesis
      by (clarsimp simp: verify_image_handler_def reply_def succeeded_def)
  next
    case (Some url)
    let ?hit = "\<lambda>r. r_id r = reportId \<and> r_disaster_id r = disasterId"
    obtain vr s1 where g: "verifyImage url st = (vr, s1)" by force
    have "quiet st s1" by (rule verifyImage_quiet [OF g])
    then have q: "disasters s1 = disasters st" "reports s1 = reports st"
      "resources s1 = resources st" "emitted s1 = emitted st"
      "io_initialized s1 = io_initialized st"
      "sound_images (cache st) \<longrightarrow> sound_images (cache s1)"
      by (simp_all add: quiet_simps)
    obtain r2 s2 where up:
      "reports_update_status reportId disasterId (get_prop vr ''status'') s1 = (r2, s2)" by force
    have h: "(case (r2, s2) of
                  (Thrown, st2) \<Rightarrow>
                    (reply 500 (Message ''Internal server error during image verification.''), st2)
                | (Failed code, st2) \<Rightarrow>
                    (reply 500 (Message ''Error updating report verification status.''), st2)
                | (Ok [], st2) \<Rightarrow>
                    (reply 404 (Message ''Report not found for image verification update.''), st2)
                | (Ok (updatedReport # _), st2) \<Rightarrow>
                    (case emit ''report_updated''
                            (ReportPayload ''verification_status_updated'' updatedReport) st2 of
                       (Raised, st3) \<Rightarrow>
                         (reply 500 (Message ''Internal server error during image verification.''),
                          st3)
                     | (Value _, st3) \<Rightarrow>
                         (reply 200 (VerifiedReportBody updatedReport
                                       (get_prop vr ''message'')), st3))) = (resp, s)"
      using run(3) Some g up by (simp add: verify_image_handler_def)
    from reports_update_status_cases [OF up] obtain fs where
      c: "((r2 = Thrown \<or> (\<exists>c. r2 = Failed c)) \<and> s2 = s1\<lparr>faults := fs\<rparr>) \<or>
         (\<exists>sv. get_prop vr ''status'' = Some (JStr sv) \<and>
            r2 = Ok (map (\<lambda>r. r\<lparr>r_verification_status := sv\<rparr>) (filter ?hit (reports s1))) \<and>
            s2 = s1\<lparr>faults := fs,
               reports := map (\<lambda>r. if ?hit r then r\<lparr>r_verification_status := sv\<rparr> else r)
                            (reports s1)\<rparr>)" by blast
    from c show ?thesis
    proof (elim disjE exE conjE)
      assume "r2 = Thrown" "s2 = s1\<lparr>faults := fs\<rparr>"
      with h q show ?thesis by (clarsimp simp: reply_def succeeded_def)
    next
      fix c assume "r2 = Failed c" "s2 = s1\<lparr>faults := fs\<rparr>"
      with h q show ?thesis by (clarsimp simp: reply_def succeeded_def)
    next
      fix sv assume sv: "get_prop vr ''status'' = Some (JStr sv)"
        and r2: "r2 = Ok (map (\<lambda>r. r\<lparr>r_verification_status := sv\<rparr>) (filter ?hit (reports s1)))"
        and s2: "s2 = s1\<lparr>faults := fs,
               reports := map (\<lambda>r. if ?hit r then r\<lparr>r_verification_status := sv\<rparr> else r)
                            (reports s1)\<rparr>"
      show ?thesis
      proof (cases "filter ?hit (reports st)")
        case Nil
        then have "map (\<lambda>r. if ?hit r then r\<lparr>r_verification_status := sv\<rparr> else r) (reports st)
            = reports st" by (rule map_no_hit)
        with h q r2 s2 Nil show ?thesis
          by (clarsimp simp: reply_def succeeded_def)
      next
        case (Cons r0 rest)
        then have "r0 \<in> set (filter ?hit (reports st))" by simp
        then have m: "r0 \<in> set (reports st)" "r_id r0 = reportId" "r_disaster_id r0 = disasterId"
          by auto
        have r2': "r2 = Ok (r0\<lparr>r_verification_status := sv\<rparr> #
            map (\<lambda>r. r\<lparr>r_verification_status := sv\<rparr>) rest)"
          using r2 q(2) Cons by simp
        have h3: "(case emit ''report_updated''
              (ReportPayload ''verification_status_updated'' (r0\<lparr>r_verification_status := sv\<rparr>)) s2 of
                       (Raised, st3) \<Rightarrow>
                         (reply 500 (Message ''Internal server error during image verification.''),
                          st3)
                     | (Value _, st3) \<Rightarrow>
                         (reply 200 (VerifiedReportBody (r0\<lparr>r_verification_status := sv\<rparr>)
                                       (get_prop vr ''message'')), st3)) = (resp, s)"
          using h r2' by simp
        have s2': "disasters s2 = disasters st" "resources s2 = resources st" "emitted s2 = emitted st"
          "io_initialized s2 = io_initialized st" "cache s2 = cache s1"
          "reports s2 = map (\<lambda>r. if ?hit r then r\<lparr>r_verification_status := sv\<rparr> else r) (reports st)"
          using s2 q by simp_all
        show ?thesis
        proof (cases "io_initialized st")
          case True
          with h3 s2' have "resp = reply 200 (VerifiedReportBody (r0\<lparr>r_verification_status := sv\<rparr>)
                                       (get_prop vr ''message''))"
            and "s = s2\<lparr>emitted := emitted s2 @ [Emit ''report_updated''
              (ReportPayload ''verification_status_updated'' (r0\<lparr>r_verification_status := sv\<rparr>))]\<rparr>"
            by (auto simp: emit_def)
          with s2' q(6) m g Some sv show ?thesis
            by (auto simp: reply_def succeeded_def)
        next
          case False
          with h3 s2' have "resp = reply 500 (Message ''Internal server error during image verification.'')"
            and "s = s2" by (auto simp: emit_def)
          with s2' q(6) False show ?thesis
            by (auto simp: reply_def succeeded_def)
        qed
      qed
    qed
  qed
qed

lemma disasters_update_by_id_cases:
  assumes "disasters_update_by_id i f st = (r, s)"
  shows "\<exists>fs. ((r = Thrown \<or> (\<exists>c. r = Failed c)) \<and> s = st\<lparr>faults := fs\<rparr>) \<or>
     (r = Ok (filter (\<lambda>d. d_id d = i) (map (\<lambda>d. if d_id d = i then f d else d) (disasters st))) \<and>
      s = st\<lparr>faults := fs, disasters := map (\<lambda>d. if d_id d = i then f d else d) (disasters st)\<rparr>)"
  using store_call_elim [OF assms [unfolded disasters_update_by_id_def]]
  by (auto simp: Let_def)

lemma post_geocode_effect:
  assumes "post_geocode userId b st = (resp, s)"
  shows "reports s = reports st \<and> resources s = resources st \<and>
    (sound_images (cache st) \<longrightarrow> sound_images (cache s)) \<and>
    (if succeeded resp then
       \<exists>i locationName c d.
         g_disasterId b = Some i \<and> d \<in> set (disasters st) \<and> d_id d = i \<and> usable_point c \<and>
         disasters s = map (\<lambda>d. if d_id d = i
                               then d\<lparr>d_location_name := locationName,
                                      d_location := Some (point_of c)\<rparr> else d) (disasters st) \<and>
         emitted s = emitted st @
           [Emit ''disaster_updated''
              (DisasterPayload ''location_updated''
                 (Some (d\<lparr>d_location_name := locationName, d_location := Some (point_of c)\<rparr>)))] \<and>
         status resp = 200
     else emitted s = emitted st \<and> (io_initialized st \<longrightarrow> disasters s = disasters st))"
  using assms unfolding post_geocode_def
proof (cases rule: guarded_cases)
  case denied
  then show ?thesis by simp
next
  case (run u)
  show ?thesis
  proof (cases "\<exists>i description. g_disasterId b = Some i \<and> truthy_param (g_description b) = Some description")
    case False
    with run(3) show ?thesis
      by (clarsimp simp: post_geocode_handler_def reply_def succeeded_def split: option.splits)+
  next
    case True
    then obtain i description where f: "g_disasterId b = Some i"
      "truthy_param (g_description b) = Some description" by blast
    obtain e s1 where x: "extractLocationFromDescription description st = (e, s1)" by force
    have "quiet st s1" by (rule extractLocation_quiet [OF x])
    then have q1: "disasters s1 = disasters st" "reports s1 = reports st"
      "resources s1 = resources st" "emitted s1 = emitted st"
      "io_initialized s1 = io_initialized st"
      "sound_images (cache st) \<longrightarrow> sound_images (cache s1)"
      by (simp_all add: quiet_simps)
    show ?thesis
    proof (cases "\<exists>locationName. e = JStr locationName \<and> locationName \<noteq> [] \<and>
        locationName \<noteq> ''Unknown Location''")
      case False
      with run(3) f x q1 show ?thesis
        by (cases e) (clarsimp simp: post_geocode_handler_def reply_def succeeded_def split: if_splits)+
    next
      case True
      then obtain locationName where e: "e = JStr locationName" "locationName \<noteq> []"
        "locationName \<noteq> ''Unknown Location''" by blast
      obtain c s2 where g: "geocodeLocation locationName s1 = (c, s2)" by force
      have "quiet s1 s2" by (rule geocodeLocation_quiet [OF g])
      with q1 have q2: "disasters s2 = disasters st" "reports s2 = reports st"
        "resources s2 = resources st" "emitted s2 = emitted st"
        "io_initialized s2 = io_initialized st"
        "sound_images (cache st) \<longrightarrow> sound_images (cache s2)"
        by (simp_all add: quiet_simps)
      show ?thesis
      proof (cases "usable_point c")
        case False
        with run(3) f x e g q2 show ?thesis
          by (clarsimp simp: post_geocode_handler_def reply_def succeeded_def)
      next
        case True
        let ?f = "\<lambda>d. d\<lparr>d_location_name := locationName, d_location := Some (point_of c)\<rparr>"
        let ?hit = "\<lambda>d. d_id d = i"
        obtain r3 s3 where up: "disasters_update_by_id i ?f s2 = (r3, s3)" by force
        have h: "(case (r3, s3) of
                                (Thrown, st3) \<Rightarrow>
                                  (reply 500 (Message ''Internal server error during geocoding.''), st3)
                              | (Failed code, st3) \<Rightarrow>
                                  (reply 500
                                     (Message ''Error updating disaster with geocoded location.''),
                                   st3)
                              | (Ok [], st3) \<Rightarrow>
                                  (reply 404
                                     (Message ''Disaster not found for updating geocoded location.''),
                                   st3)
                              | (Ok (updatedDisaster # _), st3) \<Rightarrow>
                                  (case emit ''disaster_updated''
                                          (DisasterPayload ''location_updated'' (Some updatedDisaster))
                                          st3 of
                                     (Raised, st4) \<Rightarrow>
                                       (reply 500 (Message ''Internal server error during geocoding.''),
                                        st4)
                                   | (Value _, st4) \<Rightarrow>
                                       (reply 200 (DisasterBody (Some updatedDisaster)), st4))) = (resp, s)"
          using run(3) f x e g True up by (simp add: post_geocode_handler_def)
        have fm: "filter ?hit (map (\<lambda>d. if ?hit d then ?f d else d) (disasters st))
            = map ?f (filter ?hit (disasters st))"
          by (rule filter_map_hit) simp
        from disasters_update_by_id_cases [OF up] obtain fs where
          c: "((r3 = Thrown \<or> (\<exists>c. r3 = Failed c)) \<and> s3 = s2\<lparr>faults := fs\<rparr>) \<or>
             (r3 = Ok (filter ?hit (map (\<lambda>d. if ?hit d then ?f d else d) (disasters s2))) \<and>
              s3 = s2\<lparr>faults := fs, disasters := map (\<lambda>d. if ?hit d then ?f d else d) (disasters s2)\<rparr>)"
          by blast
        from c show ?thesis
        proof (elim disjE exE conjE)
          assume "r3 = Thrown" "s3 = s2\<lparr>faults := fs\<rparr>"
          with h q2 show ?thesis by (clarsimp simp: reply_def succeeded_def)
        next
          fix c assume "r3 = Failed c" "s3 = s2\<lparr>faults := fs\<rparr>"
          with h q2 show ?thesis by (clarsimp simp: reply_def succeeded_def)
        next
          assume r3: "r3 = Ok (filter ?hit (map (\<lambda>d. if ?hit d then ?f d else d) (disasters s2)))"
            and s3: "s3 = s2\<lparr>faults := fs,
                disasters := map (\<lambda>d. if ?hit d then ?f d else d) (disasters s2)\<rparr>"
          show ?thesis
          proof (cases "filter ?hit (disasters st)")
            case Nil
            then have "map (\<lambda>d. if ?hit d then ?f d else d) (disasters st) = disasters st"
              by (rule map_no_hit)
            with h q2 r3 s3 Nil fm show ?thesis
              by (clarsimp simp: reply_def succeeded_def)
          next
            case (Cons d0 rest)
            then have "d0 \<in> set (filter ?hit (disasters st))" by simp
            then have m: "d0 \<in> set (disasters st)" "d_id d0 = i" by auto
            have r3': "r3 = Ok (?f d0 # map ?f rest)"
              using r3 q2(1) Cons fm by simp
            have h3: "(case emit ''disaster_updated''
                         (DisasterPayload ''location_updated'' (Some (?f d0))) s3 of
                                     (Raised, st4) \<Rightarrow>
                                       (reply 500 (Message ''Internal server error during geocoding.''),
                                        st4)
                                   | (Value _, st4) \<Rightarrow>
                                       (reply 200 (DisasterBody (Some (?f d0))), st4)) = (resp, s)"
              using h r3' by simp
            have s3': "reports s3 = reports st" "resources s3 = resources st"
              "emitted s3 = emitted st" "io_initialized s3 = io_initialized st" "cache s3 = cache s2"
              "disasters s3 = map (\<lambda>d. if ?hit d then ?f d else d) (disasters st)"
              using s3 q2 by simp_all
            show ?thesis
            proof (cases "io_initialized st")
              case True
              with h3 s3' have "resp = reply 200 (DisasterBody (Some (?f d0)))"
                and "s = s3\<lparr>emitted := emitted s3 @ [Emit ''disaster_updated''
                   (DisasterPayload ''location_updated'' (Some (?f d0)))]\<rparr>"
                by (auto simp: emit_def)
              with s3' q2(6) m f \<open>usable_point c\<close> show ?thesis
                by (auto simp: reply_def succeeded_def)
            next
              case False
              with h3 s3' have "resp = reply 500 (Message ''Internal server error during geocoding.'')"
                and "s = s3" by (auto simp: emit_def)
              with s3' q2(6) False show ?thesis
                by (auto simp: reply_def succeeded_def)
            qed
          qed
        qed
      qed
    qed
  qed
qed

section \<open>The mutation endpoints\<close>

lemma filter_single_unique:
  "filter P xs = [d] \<Longrightarrow> x \<in> set xs \<Longrightarrow> P x \<Longrightarrow> x = d"
proof -
  assume h: "filter P xs = [d]" and m: "x \<in> set xs" "P x"
  from m have "x \<in> set (filter P xs)" by simp
  with h show ?thesis by simp
qed

lemma filter_single_mem: "filter P xs = [d] \<Longrightarrow> d \<in> set xs \<and> P d"
proof -
  assume h: "filter P xs = [d]"
  have "d \<in> set (filter P xs)" by (simp add: h)
  then show ?thesis by simp
qed

lemma entries_addAuditEntry:
  "entries (addAuditEntry (or_empty t) a u now)
     = entries t @ [\<lparr>entry_action = a, entry_user_id = u, entry_timestamp = now\<rparr>]"
  by (cases t) (simp_all add: entries_def addAuditEntry_def or_empty_def)

text \<open>
  Claim C6. For every request to a mutation endpoint: when the route answers with
  success, exactly one event has been emitted, after the emitted ones, and the store
  already holds what it announces (the created or updated record is in its table, the
  deleted disaster is gone); when the route answers with anything else (authentication
  or validation error, not found, store error), no event has been emitted, and, the
  Socket.IO server being initialised, the record tables are as they were.
\<close>

theorem handle_publishes_once:
  assumes "handle rq st = (resp, s)"
  shows "(succeeded resp \<longrightarrow> (\<exists>e. emitted s = emitted st @ [e] \<and> applied e s)) \<and>
         (\<not> succeeded resp \<longrightarrow>
            emitted s = emitted st \<and> (io_initialized st \<longrightarrow> same_records st s))"
proof (cases rq)
  case (PostDisaster userId b)
  with assms have "post_disaster userId b st = (resp, s)" by simp
  from post_disaster_effect [OF this] show ?thesis
    by (auto simp: same_records_def split: if_splits)
next
  case (PutDisaster userId i b)
  with assms have "put_disaster userId i b st = (resp, s)" by simp
  from put_disaster_effect [OF this] show ?thesis
    by (auto simp: same_records_def split: if_splits dest!: filter_single_mem)
next
  case (DeleteDisaster userId i)
  with assms have "delete_disaster userId i st = (resp, s)" by simp
  from delete_disaster_effect [OF this] show ?thesis
    by (auto simp: same_records_def split: if_splits)
next
  case (PostReport userId i b)
  with assms have "post_report userId i b st = (resp, s)" by simp
  from post_report_effect [OF this] show ?thesis
    by (auto simp: same_records_def split: if_splits)
next
  case (PostResource userId i b)
  with assms have "post_resource userId i b st = (resp, s)" by simp
  from post_resource_effect [OF this] show ?thesis
    by (auto simp: same_records_def split: if_splits)
next
  case (VerifyImage userId i j u)
  with assms have "verify_image userId i j u st = (resp, s)" by simp
  from verify_image_effect [OF this] show ?thesis
    by (auto simp: same_records_def split: if_splits)
next
  case (PostGeocode userId b)
  with assms have "post_geocode userId b st = (resp, s)" by simp
  from post_geocode_effect [OF this] show ?thesis
    by (auto simp: same_records_def split: if_splits)
qed

lemma other_keys_not_image:
  "social_media_cache_key i q \<noteq> image_cache_key u"
  "official_updates_cache_key src \<noteq> image_cache_key u"
  by (simp_all add: social_media_cache_key_def official_updates_cache_key_def image_cache_key_def)

lemmas eval_simps = handle.simps guarded_def authenticate_def mockUsers_def authorize_def
  store_call_def next_fault_def disaster_exists_def emit_def reply_def succeeded_def Let_def
  flood_state_def flood_def verified_report_def help_body_def describe_body_def proto_body_def
  trails_def entries_def truthy_param_def first_def

lemmas service_simps = geocodeLocation_def verifyImage_def extractLocationFromDescription_def
  getCache_def getCache_try_def cache_select_single_def cache_delete_def setCache_def
  setCache_try_def cache_upsert_def sleep_def CACHE_TTL_SECONDS_def valid_date_def storable_def
  geocode_cache_key_def image_cache_key_def location_cache_key_def replace_whitespace_def
  is_whitespace_def

lemmas disaster_route_simps = post_disaster_def post_disaster_handler_def disasters_insert_def
  put_disaster_def put_disaster_handler_def disasters_select_single_def
  disasters_update_by_id_def delete_disaster_def delete_disaster_handler_def disasters_delete_def
  body_empty_def updatePayload_def truthy_or_def or_empty_def addAuditEntry_def

lemmas report_route_simps = post_report_def post_report_handler_def reports_insert_def
  verify_image_def verify_image_handler_def reports_update_status_def

theorem handle_publishes_once_witness:
  "succeeded (fst (handle (PostReport (Some ''citizen1'') 0 help_body) flood_state)) \<and>
   length (emitted (snd (handle (PostReport (Some ''citizen1'') 0 help_body) flood_state))) = 1 \<and>
   \<not> succeeded (fst (handle (PostReport (Some ''citizen1'') 7 help_body) flood_state)) \<and>
   emitted (snd (handle (PostReport (Some ''citizen1'') 7 help_body) flood_state)) = []"
proof -
  have a: "succeeded (fst (handle (PostReport (Some ''citizen1'') 0 help_body) flood_state))"
    by (simp add: eval_simps report_route_simps)
  have b: "\<not> succeeded (fst (handle (PostReport (Some ''citizen1'') 7 help_body) flood_state))"
    by (simp add: eval_simps report_route_simps)
  have e: "emitted flood_state = []" by (simp add: flood_state_def)
  from handle_publishes_once [OF prod.collapse [symmetric],
        of "PostReport (Some ''citizen1'') 0 help_body" flood_state] a e
  have "length (emitted (snd (handle (PostReport (Some ''citizen1'') 0 help_body) flood_state))) = 1"
    by auto
  moreover
  from handle_publishes_once [OF prod.collapse [symmetric],
        of "PostReport (Some ''citizen1'') 7 help_body" flood_state] b e
  have "emitted (snd (handle (PostReport (Some ''citizen1'') 7 help_body) flood_state)) = []"
    by simp
  ultimately show ?thesis using a b by simp
qed

section \<open>The audit trail\<close>

lemma trails_map_keep:
  "(\<And>d. d_id (f d) = d_id d \<and> d_audit_trail (f d) = d_audit_trail d) \<Longrightarrow>
     map (\<lambda>d. (d_id d, entries (d_audit_trail d))) (map (\<lambda>d. if P d then f d else d) xs)
       = map (\<lambda>d. (d_id d, entries (d_audit_trail d))) xs"
  by (induction xs) auto

text \<open>
  Claim C1, as amended. A successful disaster creation leaves the new disaster with a
  trail of exactly one entry (create, the actor, now); a successful disaster update
  (PUT) leaves the disaster's trail equal to its old entries with exactly one entry
  (update, the actor, now) appended, and every other trail as it was; a successful
  deletion removes the disaster with its trail; every other successful mutation, the
  creation of a child report or resource among them, leaves every audit trail unchanged.
  No mutation removes or reorders the entries of a disaster that stays in the store.
\<close>

theorem audit_trail_effect:
  assumes "handle rq st = (resp, s)" and "succeeded resp"
  shows "case rq of
      PostDisaster userId b \<Rightarrow>
        (\<exists>uid. userId = Some uid \<and>
           trails s = trails st @
             [(next_uuid st, [\<lparr>entry_action = ''create'', entry_user_id = uid,
                                entry_timestamp = clock st\<rparr>])])
    | PutDisaster userId i b \<Rightarrow>
        (\<exists>uid. userId = Some uid \<and> i \<in> fst ` set (trails st) \<and>
           trails s = map (\<lambda>(j, es). if j = i
                            then (j, es @ [\<lparr>entry_action = ''update'', entry_user_id = uid,
                                             entry_timestamp = clock st\<rparr>])
                            else (j, es)) (trails st))
    | DeleteDisaster userId i \<Rightarrow> trails s = filter (\<lambda>(j, es). j \<noteq> i) (trails st)
    | _ \<Rightarrow> trails s = trails st"
proof (cases rq)
  case (PostDisaster userId b)
  with assms have "post_disaster userId b st = (resp, s)" by simp
  from post_disaster_effect [OF this] assms(2) PostDisaster show ?thesis
    by (auto simp: trails_def entries_def dest!: authenticate_Inr)
next
  case (PutDisaster userId i b)
  with assms have "put_disaster userId i b st = (resp, s)" by simp
  from put_disaster_effect [OF this] assms(2) obtain u d where
    u: "authenticate userId = Inr u" and d: "filter (\<lambda>d. d_id d = i) (disasters st) = [d]"
    and ds: "disasters s = map (\<lambda>x. if d_id x = i
        then updatePayload b (addAuditEntry (or_empty (d_audit_trail d)) ''update'' (u_id u) (clock st)) x
        else x) (disasters st)"
    by auto
  have uid: "userId = Some (u_id u)" by (rule authenticate_Inr [OF u])
  have mem: "d \<in> set (disasters st)" "d_id d = i" using filter_single_mem [OF d] by auto
  have uniq: "\<And>x. x \<in> set (disasters st) \<Longrightarrow> d_id x = i \<Longrightarrow> x = d"
    using filter_single_unique [OF d] by blast
  have "trails s = map (\<lambda>(j, es). if j = i
                            then (j, es @ [\<lparr>entry_action = ''update'', entry_user_id = u_id u,
                                             entry_timestamp = clock st\<rparr>])
                            else (j, es)) (trails st)"
    unfolding trails_def ds
    by (auto simp: updatePayload_def entries_addAuditEntry dest: uniq)
  moreover have "i \<in> fst ` set (trails st)"
    using mem by (force simp: trails_def)
  ultimately show ?thesis using PutDisaster uid by simp
next
  case (DeleteDisaster userId i)
  with assms have "delete_disaster userId i st = (resp, s)" by simp
  from delete_disaster_effect [OF this] assms(2) DeleteDisaster show ?thesis
    by (auto simp: trails_def filter_map o_def)
next
  case (PostReport userId i b)
  with assms have "post_report userId i b st = (resp, s)" by simp
  from post_report_effect [OF this] PostReport show ?thesis
    by (simp add: trails_def)
next
  case (PostResource userId i b)
  with assms have "post_resource userId i b st = (resp, s)" by simp
  from post_resource_effect [OF this] PostResource show ?thesis
    by (simp add: trails_def)
next
  case (VerifyImage userId i j u)
  with assms have "verify_image userId i j u st = (resp, s)" by simp
  from verify_image_effect [OF this] VerifyImage show ?thesis
    by (simp add: trails_def)
next
  case (PostGeocode userId b)
  with assms have "post_geocode userId b st = (resp, s)" by simp
  from post_geocode_effect [OF this] assms(2) PostGeocode show ?thesis
    by (auto simp: trails_def trails_map_keep)
qed

theorem audit_trail_effect_witness:
  "trails (snd (handle (PutDisaster (Some ''netrunnerX'') 0 describe_body) flood_state))
     = [(0, [\<lparr>entry_action = ''create'', entry_user_id = ''netrunnerX'', entry_timestamp = 1000\<rparr>,
             \<lparr>entry_action = ''update'', entry_user_id = ''netrunnerX'', entry_timestamp = 2000\<rparr>])]"
proof -
  have ok: "succeeded (fst (handle (PutDisaster (Some ''netrunnerX'') 0 describe_body) flood_state))"
    by (simp add: eval_simps disaster_route_simps)
  have t: "trails flood_state
     = [(0, [\<lparr>entry_action = ''create'', entry_user_id = ''netrunnerX'', entry_timestamp = 1000\<rparr>])]"
    "clock flood_state = 2000"
    by (simp_all add: eval_simps)
  from audit_trail_effect [OF prod.collapse [symmetric] ok] t show ?thesis
    by simp
qed

text \<open>
  The claim as stated fails: a report is created on disaster 0 with success, and the
  disaster's audit trail is the same single entry before and after.
\<close>

theorem audit_trail_counterexample:
  "succeeded (fst (handle (PostReport (Some ''citizen1'') 0 help_body) flood_state)) \<and>
   trails flood_state
     = [(0, [\<lparr>entry_action = ''create'', entry_user_id = ''netrunnerX'', entry_timestamp = 1000\<rparr>])] \<and>
   trails (snd (handle (PostReport (Some ''citizen1'') 0 help_body) flood_state))
     = [(0, [\<lparr>entry_action = ''create'', entry_user_id = ''netrunnerX'', entry_timestamp = 1000\<rparr>])]"
  by (simp add: eval_simps report_route_simps)

section \<open>Report verification\<close>

lemma kept_all: "xs = ys \<Longrightarrow> \<exists>keep. xs = filter keep ys"
  by (rule exI [of _ "\<lambda>_. True"]) simp

lemma kept_some: "xs = filter P ys \<Longrightarrow> \<exists>keep. xs = filter keep ys"
  by blast

text \<open>
  Claim C5. A request other than verify-image leaves every stored report as it is: the
  reports afterwards are the old ones (or those of them that a deleted disaster does not
  take along), or the old ones and one new report in status pending. A verify-image
  request that succeeds sets the status of the report it names to the status of that
  call's verification result, whatever the status was before; one that does not succeed
  leaves the reports as they were (the Socket.IO server being initialised).
\<close>

theorem verification_status_transitions:
  assumes "handle rq st = (resp, s)"
  shows "case rq of
      VerifyImage userId disasterId reportId imageUrl \<Rightarrow>
        (succeeded resp \<longrightarrow>
           (\<exists>url sv. truthy_param imageUrl = Some url \<and>
              get_prop (fst (verifyImage url st)) ''status'' = Some (JStr sv) \<and>
              (\<exists>r. r \<in> set (reports st) \<and> r_id r = reportId \<and> r_disaster_id r = disasterId) \<and>
              reports s = map (\<lambda>r. if r_id r = reportId \<and> r_disaster_id r = disasterId
                                    then r\<lparr>r_verification_status := sv\<rparr> else r) (reports st))) \<and>
        (\<not> succeeded resp \<and> io_initialized st \<longrightarrow> reports s = reports st)
    | _ \<Rightarrow>
        (\<exists>keep. reports s = filter keep (reports st)) \<or>
        (\<exists>r. r_verification_status r = ''pending'' \<and> reports s = reports st @ [r])"
proof (cases rq)
  case (PostDisaster userId b)
  with assms have "post_disaster userId b st = (resp, s)" by simp
  from post_disaster_effect [OF this] have "\<exists>keep. reports s = filter keep (reports st)"
    by (intro kept_all) simp
  with PostDisaster show ?thesis by auto
next
  case (PutDisaster userId i b)
  with assms have "put_disaster userId i b st = (resp, s)" by simp
  from put_disaster_effect [OF this] have "\<exists>keep. reports s = filter keep (reports st)"
    by (intro kept_all) simp
  with PutDisaster show ?thesis by auto
next
  case (DeleteDisaster userId i)
  with assms have "delete_disaster userId i st = (resp, s)" by simp
  from delete_disaster_effect [OF this]
  have "\<exists>keep. reports s = filter keep (reports st)"
    by (auto intro: kept_all kept_some)
  with DeleteDisaster show ?thesis by auto
next
  case (PostReport userId i b)
  with assms have "post_report userId i b st = (resp, s)" by simp
  from post_report_effect [OF this]
  have "(\<exists>keep. reports s = filter keep (reports st)) \<or>
     (\<exists>row. r_verification_status row = ''pending'' \<and> reports s = reports st @ [row])"
    by (auto intro: kept_all)
  with PostReport show ?thesis by auto
next
  case (PostResource userId i b)
  with assms have "post_resource userId i b st = (resp, s)" by simp
  from post_resource_effect [OF this] have "\<exists>keep. reports s = filter keep (reports st)"
    by (intro kept_all) simp
  with PostResource show ?thesis by auto
next
  case (VerifyImage userId i j u)
  with assms have "verify_image userId i j u st = (resp, s)" by simp
  from verify_image_effect [OF this] VerifyImage show ?thesis
    by (auto split: if_splits)
next
  case (PostGeocode userId b)
  with assms have "post_geocode userId b st = (resp, s)" by simp
  from post_geocode_effect [OF this] have "\<exists>keep. reports s = filter keep (reports st)"
    by (intro kept_all) simp
  with PostGeocode show ?thesis by auto
qed

lemma flood_sound: "sound_images (cache flood_state)"
  by (simp add: sound_images_def flood_state_def)

lemma pic_unmocked: "\<not> includes_str ''pic.png'' ''authentic''" "\<not> includes_str ''pic.png'' ''manipulated''"
  by (simp_all add: includes_str_def sublist_code)

lemma verify_pic_ok:
  "succeeded (fst (handle (VerifyImage (Some ''netrunnerX'') 0 1 (Some ''pic.png'')) flood_state))"
  by (simp add: eval_simps report_route_simps service_simps mock_verify_image_def
      includes_str_def sublist_code verify_image_default_def)

theorem verification_status_transitions_witness:
  "map r_verification_status
     (reports (snd (handle (VerifyImage (Some ''netrunnerX'') 0 1 (Some ''pic.png'')) flood_state)))
     = [''pending''] \<and>
   map r_verification_status
     (reports (snd (handle (PostReport (Some ''citizen1'') 0 help_body) flood_state)))
     = [''verified'', ''pending'']"
proof -
  have r: "reports flood_state = [verified_report]" by (simp add: flood_state_def)
  have v: "get_prop (fst (verifyImage ''pic.png'' flood_state)) ''status'' = Some (JStr ''pending'')"
    by (simp add: eval_simps service_simps mock_verify_image_def includes_str_def sublist_code
        verify_image_default_def)
  from verification_status_transitions [OF prod.collapse [symmetric],
      of "VerifyImage (Some ''netrunnerX'') 0 1 (Some ''pic.png'')" flood_state] verify_pic_ok v
  have a: "map r_verification_status
     (reports (snd (handle (VerifyImage (Some ''netrunnerX'') 0 1 (Some ''pic.png'')) flood_state)))
     = [''pending'']"
    by (auto simp: r verified_report_def truthy_param_def)
  have b: "map r_verification_status
     (reports (snd (handle (PostReport (Some ''citizen1'') 0 help_body) flood_state)))
     = [''verified'', ''pending'']"
    by (simp add: eval_simps report_route_simps)
  from a b show ?thesis by simp
qed

lemma getCache_value:
  "getCache key st = (v, s) \<Longrightarrow>
     v = JNull \<or> (\<exists>row. cache st key = Some row \<and> v = cache_value row)"
  by (clarsimp simp: cache_defs split: all_splits)+

lemma verifyImage_sound:
  assumes "sound_images (cache st)"
  shows "fst (verifyImage url st) = mock_verify_image url"
proof -
  obtain v s1 where g: "getCache (image_cache_key url) st = (v, s1)" by force
  from getCache_value [OF g] assms have "v = JNull \<or> v = mock_verify_image url"
    by (auto simp: sound_images_def)
  with g show ?thesis
    by (auto simp: verifyImage_def Let_def)
qed

lemma handle_sound_images:
  assumes "handle rq st = (resp, s)" and "sound_images (cache st)"
  shows "sound_images (cache s)"
proof (cases rq)
  case (PostDisaster userId b)
  with assms have "post_disaster userId b st = (resp, s)" by simp
  from post_disaster_effect [OF this] assms(2) show ?thesis by simp
next
  case (PutDisaster userId i b)
  with assms have "put_disaster userId i b st = (resp, s)" by simp
  from put_disaster_effect [OF this] assms(2) show ?thesis by simp
next
  case (DeleteDisaster userId i)
  with assms have "delete_disaster userId i st = (resp, s)" by simp
  from delete_disaster_effect [OF this] assms(2) show ?thesis by simp
next
  case (PostReport userId i b)
  with assms have "post_report userId i b st = (resp, s)" by simp
  from post_report_effect [OF this] assms(2) show ?thesis by simp
next
  case (PostResource userId i b)
  with assms have "post_resource userId i b st = (resp, s)" by simp
  from post_resource_effect [OF this] assms(2) show ?thesis by simp
next
  case (VerifyImage userId i j u)
  with assms have "verify_image userId i j u st = (resp, s)" by simp
  from verify_image_effect [OF this] assms(2) show ?thesis by simp
next
  case (PostGeocode userId b)
  with assms have "post_geocode userId b st = (resp, s)" by simp
  from post_geocode_effect [OF this] assms(2) show ?thesis by simp
qed

text \<open>
  Claim C9. On a cache whose image-verification entries are those \<open>verifyImage\<close>
  wrote (which every mutation endpoint preserves, \<open>handle_sound_images\<close>), for an
  \<open>imageUrl\<close> that contains neither \<^verbatim>\<open>authentic\<close> nor \<^verbatim>\<open>manipulated\<close>:
  \<open>verifyImage\<close> returns the result with status pending, and a verify-image request
  with that URL that succeeds sets the status of the report it names to pending, whatever
  it was before.
\<close>

theorem unmocked_image_resets_to_pending:
  assumes "sound_images (cache st)"
    and "\<not> includes_str imageUrl ''authentic''" and "\<not> includes_str imageUrl ''manipulated''"
  shows "fst (verifyImage imageUrl st) = verify_image_default \<and>
    get_prop (fst (verifyImage imageUrl st)) ''status'' = Some (JStr ''pending'') \<and>
    (\<forall>userId disasterId reportId resp s.
       handle (VerifyImage userId disasterId reportId (Some imageUrl)) st = (resp, s) \<and>
       succeeded resp \<longrightarrow>
         (\<exists>r. r \<in> set (reports st) \<and> r_id r = reportId \<and> r_disaster_id r = disasterId) \<and>
         reports s = map (\<lambda>r. if r_id r = reportId \<and> r_disaster_id r = disasterId
                               then r\<lparr>r_verification_status := ''pending''\<rparr> else r) (reports st))"
proof -
  have v: "fst (verifyImage imageUrl st) = verify_image_default"
    using verifyImage_sound [OF assms(1)] assms(2,3) by (simp add: mock_verify_image_def)
  have p: "get_prop verify_image_default ''status'' = Some (JStr ''pending'')"
    by (simp add: verify_image_default_def)
  have "\<And>userId disasterId reportId resp s.
       handle (VerifyImage userId disasterId reportId (Some imageUrl)) st = (resp, s) \<Longrightarrow>
       succeeded resp \<Longrightarrow>
         (\<exists>r. r \<in> set (reports st) \<and> r_id r = reportId \<and> r_disaster_id r = disasterId) \<and>
         reports s = map (\<lambda>r. if r_id r = reportId \<and> r_disaster_id r = disasterId
                               then r\<lparr>r_verification_status := ''pending''\<rparr> else r) (reports st)"
  proof -
    fix userId disasterId reportId resp s
    assume h: "handle (VerifyImage userId disasterId reportId (Some imageUrl)) st = (resp, s)"
      and ok: "succeeded resp"
    from h have "verify_image userId disasterId reportId (Some imageUrl) st = (resp, s)" by simp
    from verify_image_effect [OF this] ok obtain url vr s1 sv r where
      e: "truthy_param (Some imageUrl) = Some url" "verifyImage url st = (vr, s1)"
        "get_prop vr ''status'' = Some (JStr sv)"
        "r \<in> set (reports st)" "r_id r = reportId" "r_disaster_id r = disasterId"
        "reports s = map (\<lambda>r. if r_id r = reportId \<and> r_disaster_id r = disasterId
                               then r\<lparr>r_verification_status := sv\<rparr> else r) (reports st)"
      by auto
    from e(1) have "url = imageUrl" by (auto simp: truthy_param_def split: if_splits)
    with e(2) v have "vr = verify_image_default" by simp
    with e(3) p have "sv = ''pending''" by simp
    with e show "(\<exists>r. r \<in> set (reports st) \<and> r_id r = reportId \<and> r_disaster_id r = disasterId) \<and>
         reports s = map (\<lambda>r. if r_id r = reportId \<and> r_disaster_id r = disasterId
                               then r\<lparr>r_verification_status := ''pending''\<rparr> else r) (reports st)"
      by auto
  qed
  with v p show ?thesis by auto
qed

theorem unmocked_image_resets_to_pending_witness:
  "map r_verification_status (reports flood_state) = [''verified''] \<and>
   map r_verification_status
     (reports (snd (handle (VerifyImage (Some ''netrunnerX'') 0 1 (Some ''pic.png'')) flood_state)))
     = [''pending'']"
proof -
  have r: "reports flood_state = [verified_report]" by (simp add: flood_state_def)
  from unmocked_image_resets_to_pending [OF flood_sound pic_unmocked]
  have "\<forall>userId disasterId reportId resp s.
       handle (VerifyImage userId disasterId reportId (Some ''pic.png'')) flood_state = (resp, s) \<and>
       succeeded resp \<longrightarrow>
         reports s = map (\<lambda>r. if r_id r = reportId \<and> r_disaster_id r = disasterId
                               then r\<lparr>r_verification_status := ''pending''\<rparr> else r)
                       (reports flood_state)" by blast
  from this [rule_format, OF conjI [OF prod.collapse [symmetric] verify_pic_ok]]
  show ?thesis by (simp add: r verified_report_def)
qed

section \<open>Resource creation\<close>

text \<open>
  Claim C3. When the location name of a resource request does not geocode to a usable
  point (the route's own test), the request does not succeed, the record tables and the
  emitted events are as they were, and a request that passed authentication,
  authorisation and the check of its fields is answered 400. Conversely the resources
  table changes only by one new row, whose location is the usable point its name
  geocoded to. The geospatial index is the table's: no row, no entry.
\<close>

theorem ungeocodable_resource_rejected:
  assumes "handle (PostResource userId disasterId b) st = (resp, s)"
  shows "(\<forall>l. sb_location_name b = Some l \<and> \<not> usable_point (fst (geocodeLocation l st)) \<longrightarrow>
            \<not> succeeded resp \<and> same_records st s \<and> emitted s = emitted st \<and>
            (\<forall>u name type.
               authenticate userId = Inr u \<and> authorize [''admin'', ''contributor''] u \<and>
               sb_name b = Some name \<and> name \<noteq> [] \<and> l \<noteq> [] \<and>
               sb_type b = Some type \<and> type \<noteq> [] \<longrightarrow>
               resp = reply 400 (Message ''Could not geocode the provided resource location.''))) \<and>
         (resources s \<noteq> resources st \<longrightarrow>
            (\<exists>l row. sb_location_name b = Some l \<and> usable_point (fst (geocodeLocation l st)) \<and>
               res_location row = Some (point_of (fst (geocodeLocation l st))) \<and>
               resources s = resources st @ [row]))"
proof -
  from assms have h: "post_resource userId disasterId b st = (resp, s)" by simp
  note e = post_resource_effect [OF h]
  have second: "resources s \<noteq> resources st \<longrightarrow>
            (\<exists>l row. sb_location_name b = Some l \<and> usable_point (fst (geocodeLocation l st)) \<and>
               res_location row = Some (point_of (fst (geocodeLocation l st))) \<and>
               resources s = resources st @ [row])"
    using e by auto
  have first: "\<And>l. sb_location_name b = Some l \<Longrightarrow> \<not> usable_point (fst (geocodeLocation l st)) \<Longrightarrow>
            \<not> succeeded resp \<and> same_records st s \<and> emitted s = emitted st \<and>
            (\<forall>u name type.
               authenticate userId = Inr u \<and> authorize [''admin'', ''contributor''] u \<and>
               sb_name b = Some name \<and> name \<noteq> [] \<and> l \<noteq> [] \<and>
               sb_type b = Some type \<and> type \<noteq> [] \<longrightarrow>
               resp = reply 400 (Message ''Could not geocode the provided resource location.''))"
  proof -
    fix l assume l: "sb_location_name b = Some l"
      and nu: "\<not> usable_point (fst (geocodeLocation l st))"
    have ns: "\<not> succeeded resp"
    proof
      assume "succeeded resp"
      with e l obtain c s1 where "geocodeLocation l st = (c, s1)" "usable_point c" by auto
      with nu show False by simp
    qed
    have rs: "resources s = resources st" using second l nu by auto
    have "\<And>u name type.
               authenticate userId = Inr u \<Longrightarrow> authorize [''admin'', ''contributor''] u \<Longrightarrow>
               sb_name b = Some name \<Longrightarrow> name \<noteq> [] \<Longrightarrow> l \<noteq> [] \<Longrightarrow>
               sb_type b = Some type \<Longrightarrow> type \<noteq> [] \<Longrightarrow>
               resp = reply 400 (Message ''Could not geocode the provided resource location.'')"
    proof -
      fix u name type
      assume a: "authenticate userId = Inr u" "authorize [''admin'', ''contributor''] u"
        "sb_name b = Some name" "name \<noteq> []" "l \<noteq> []" "sb_type b = Some type" "type \<noteq> []"
      obtain c s1 where g: "geocodeLocation l st = (c, s1)" by force
      with nu have "\<not> usable_point c" by simp
      with h a l g show "resp = reply 400 (Message ''Could not geocode the provided resource location.'')"
        by (simp add: post_resource_def guarded_def post_resource_handler_def)
    qed
    with ns rs e show "\<not> succeeded resp \<and> same_records st s \<and> emitted s = emitted st \<and>
            (\<forall>u name type.
               authenticate userId = Inr u \<and> authorize [''admin'', ''contributor''] u \<and>
               sb_name b = Some name \<and> name \<noteq> [] \<and> l \<noteq> [] \<and>
               sb_type b = Some type \<and> type \<noteq> [] \<longrightarrow>
               resp = reply 400 (Message ''Could not geocode the provided resource location.''))"
      by (auto simp: same_records_def)
  qed
  from first second show ?thesis by blast
qed

lemma proto_unusable: "\<not> usable_point (fst (geocodeLocation ''__proto__'' flood_state))"
  by (simp add: eval_simps service_simps mock_geocode_def mock_geocode_lookup_def
      MOCK_GEOCODE_RESPONSES_def usable_point_def)

theorem ungeocodable_resource_rejected_witness:
  "fst (handle (PostResource (Some ''netrunnerX'') 0 proto_body) flood_state)
     = reply 400 (Message ''Could not geocode the provided resource location.'') \<and>
   resources (snd (handle (PostResource (Some ''netrunnerX'') 0 proto_body) flood_state)) = [] \<and>
   emitted (snd (handle (PostResource (Some ''netrunnerX'') 0 proto_body) flood_state)) = []"
proof -
  have nu: "\<not> usable_point (fst (geocodeLocation ''__proto__'' flood_state))"
    by (rule proto_unusable)
  have a: "authenticate (Some ''netrunnerX'')
      = Inr \<lparr>u_id = ''netrunnerX'', u_username = ''netrunnerX'', u_roles = [''admin'', ''contributor'']\<rparr>"
    by (simp add: authenticate_def mockUsers_def)
  have z: "authorize [''admin'', ''contributor'']
      \<lparr>u_id = ''netrunnerX'', u_username = ''netrunnerX'', u_roles = [''admin'', ''contributor'']\<rparr>"
    by (simp add: authorize_def)
  have l: "sb_location_name proto_body = Some ''__proto__''" "sb_name proto_body = Some ''Shelter''"
    "sb_type proto_body = Some ''shelter''"
    by (simp_all add: proto_body_def)
  have r: "resources flood_state = []" "emitted flood_state = []" by (simp_all add: flood_state_def)
  from ungeocodable_resource_rejected [OF prod.collapse [symmetric],
      where userId = "Some ''netrunnerX''" and disasterId = 0 and b = proto_body
        and st = flood_state] l nu a z r
  show ?thesis by (auto simp: same_records_def)
qed

end
